theory Spec2Isabelle
  imports Complex_Main "HOL-Library.Word"
begin

unbundle bit_operations_syntax

section \<open>JavaScript strings\<close>

text \<open>
  A JavaScript string is a sequence of UTF-16 code units; \<open>s.length\<close>, \<open>s.indexOf\<close> and
  \<open>s.slice\<close> count and cut code units. The socket is switched to \<open>setEncoding("utf8")\<close>, so
  \<open>handleData\<close> receives such strings, and \<open>socket.write(packet)\<close> sends the UTF-8 encoding
  of one.
\<close>

type_synonym jschar = "16 word"
type_synonym jsstring = "jschar list"

text \<open>An ASCII literal of the source, as a JavaScript string.\<close>

definition ascii :: "string \<Rightarrow> jsstring" where
  "ascii cs = map of_char cs"

text \<open>\<open>s.indexOf(c)\<close> for a one-character needle; \<open>None\<close> is the result \<open>-1\<close>.\<close>

fun indexOf :: "jsstring \<Rightarrow> jschar \<Rightarrow> nat option" where
  "indexOf [] c = None"
| "indexOf (x # xs) c = (if x = c then Some 0 else map_option Suc (indexOf xs c))"

text \<open>
  \<open>s.slice(start, stop)\<close>: a negative index counts from the end, both indices are clamped to
  the string, and the result is empty when the clamped start is not before the clamped stop.
\<close>

definition slice :: "jsstring \<Rightarrow> int \<Rightarrow> int \<Rightarrow> jsstring" where
  "slice s start stop =
     (let len = int (length s);
          from = (if start < 0 then max (len + start) 0 else min start len);
          to = (if stop < 0 then max (len + stop) 0 else min stop len)
      in take (nat (to - from)) (drop (nat from) s))"

text \<open>\<open>s.slice(start)\<close>.\<close>

definition slice_from :: "jsstring \<Rightarrow> int \<Rightarrow> jsstring" where
  "slice_from s start = slice s start (int (length s))"

text \<open>\<open>s.includes(sub)\<close>.\<close>

fun str_includes :: "jsstring \<Rightarrow> jsstring \<Rightarrow> bool" where
  "str_includes [] sub = (sub = [])"
| "str_includes (c # cs) sub =
     (if take (length sub) (c # cs) = sub then True else str_includes cs sub)"

subsection \<open>\<open>parseInt(str, 10)\<close> and number-to-string conversion\<close>

text \<open>The characters \<open>parseInt\<close> skips at the front: WhiteSpace and LineTerminator of ECMA-262.\<close>

definition isWhiteSpace :: "jschar \<Rightarrow> bool" where
  "isWhiteSpace c = (c \<in> set [0x9, 0xA, 0xB, 0xC, 0xD, 0x20, 0xA0, 0x1680,
      0x2000, 0x2001, 0x2002, 0x2003, 0x2004, 0x2005, 0x2006, 0x2007, 0x2008, 0x2009, 0x200A,
      0x2028, 0x2029, 0x202F, 0x205F, 0x3000, 0xFEFF])"

definition isDigit :: "jschar \<Rightarrow> bool" where
  "isDigit c = (0x30 \<le> c \<and> c \<le> 0x39)"

definition digitsValue :: "jsstring \<Rightarrow> nat" where
  "digitsValue ds = foldl (\<lambda>acc c. 10 * acc + unat (c - 0x30)) 0 ds"

text \<open>
  \<open>parseInt(str, 10)\<close>: skip leading white space, read an optional sign, then the longest
  run of decimal digits; \<open>None\<close> is \<open>NaN\<close> (no digit there). Whatever follows the digits is
  ignored. The value is the exact integer: a JavaScript number rounds it beyond \<open>2^53\<close>,
  which no comparison with a buffer length below can observe.
\<close>

definition parseInt :: "jsstring \<Rightarrow> int option" where
  "parseInt str =
     (let s = dropWhile isWhiteSpace str;
          neg = (case s of [] \<Rightarrow> False | c # r \<Rightarrow> c = 0x2D);
          s1 = (case s of [] \<Rightarrow> s | c # r \<Rightarrow> if c = 0x2B \<or> c = 0x2D then r else s);
          ds = takeWhile isDigit s1
      in if ds = [] then None
         else Some ((if neg then - 1 else 1) * int (digitsValue ds)))"

definition digitChar :: "nat \<Rightarrow> jschar" where
  "digitChar d = of_nat (48 + d)"

text \<open>The decimal rendering of a non-negative integer, as in the template \<open>`${json.length}:`\<close>.\<close>

fun toString :: "nat \<Rightarrow> jsstring" where
  "toString n = (if n < 10 then [digitChar n] else toString (n div 10) @ [digitChar (n mod 10)])"

declare toString.simps [simp del]

subsection \<open>UTF-8, the encoding \<open>socket.write\<close> applies to a string\<close>

definition isHighSurrogate :: "jschar \<Rightarrow> bool" where
  "isHighSurrogate c = (0xD800 \<le> c \<and> c \<le> 0xDBFF)"

definition isLowSurrogate :: "jschar \<Rightarrow> bool" where
  "isLowSurrogate c = (0xDC00 \<le> c \<and> c \<le> 0xDFFF)"

text \<open>The bytes of one code point below \<open>0x10000\<close> that is not a surrogate.\<close>

definition utf8_bmp :: "jschar \<Rightarrow> 8 word list" where
  "utf8_bmp c =
     (if c < 0x80 then [ucast c]
      else if c < 0x800 then [0xC0 OR ucast (drop_bit 6 c), 0x80 OR ucast (c AND 0x3F)]
      else [0xE0 OR ucast (drop_bit 12 c), 0x80 OR ucast (drop_bit 6 c AND 0x3F),
            0x80 OR ucast (c AND 0x3F)])"

text \<open>The four bytes of the code point of a surrogate pair.\<close>

definition utf8_pair :: "jschar \<Rightarrow> jschar \<Rightarrow> 8 word list" where
  "utf8_pair hi lo =
     (let cp = (0x10000 :: 32 word) + push_bit 10 (ucast (hi AND 0x3FF)) + ucast (lo AND 0x3FF)
      in [0xF0 OR ucast (drop_bit 18 cp), 0x80 OR ucast (drop_bit 12 cp AND 0x3F),
          0x80 OR ucast (drop_bit 6 cp AND 0x3F), 0x80 OR ucast (cp AND 0x3F)])"

text \<open>A lone surrogate is written as U+FFFD.\<close>

fun utf8_encode :: "jsstring \<Rightarrow> 8 word list" where
  "utf8_encode [] = []"
| "utf8_encode [c] =
     (if isHighSurrogate c \<or> isLowSurrogate c then [0xEF, 0xBF, 0xBD] else utf8_bmp c)"
| "utf8_encode (c # d # cs) =
     (if isHighSurrogate c then
        (if isLowSurrogate d then utf8_pair c d @ utf8_encode cs
         else [0xEF, 0xBF, 0xBD] @ utf8_encode (d # cs))
      else if isLowSurrogate c then [0xEF, 0xBF, 0xBD] @ utf8_encode (d # cs)
      else utf8_bmp c @ utf8_encode (d # cs))"

section \<open>Values\<close>

text \<open>
  The values the client handles: what \<open>JSON.parse\<close> returns, extended with \<open>undefined\<close> and
  symbols. An object is the list of its own enumerable properties.
\<close>

datatype jsvalue =
    JUndefined
  | JNull
  | JBoolean bool
  | JNumber real
  | JString jsstring
  | JArray "jsvalue list"
  | JObject "(jsstring \<times> jsvalue) list"
  | JSymbol jsstring

text \<open>\<open>typeof v === "object" && v !== null\<close>.\<close>

fun isObject :: "jsvalue \<Rightarrow> bool" where
  "isObject (JArray xs) = True"
| "isObject (JObject kvs) = True"
| "isObject v = False"

fun properties :: "jsvalue \<Rightarrow> (jsstring \<times> jsvalue) list" where
  "properties (JObject kvs) = kvs"
| "properties (JArray xs) = zip (map toString [0 ..< length xs]) xs"
| "properties v = []"

text \<open>\<open>key in v\<close>, for the keys the client asks about (none of them is inherited).\<close>

definition hasKey :: "jsstring \<Rightarrow> jsvalue \<Rightarrow> bool" where
  "hasKey k v = (k \<in> set (map fst (properties v)))"

text \<open>\<open>v[key]\<close> on an object; \<open>JUndefined\<close> when the property is absent.\<close>

definition getProp :: "jsvalue \<Rightarrow> jsstring \<Rightarrow> jsvalue" where
  "getProp v k = (case map_of (properties v) k of None \<Rightarrow> JUndefined | Some x \<Rightarrow> x)"

text \<open>\<open>Object.keys(v)\<close>: every key once.\<close>

definition Object_keys :: "jsvalue \<Rightarrow> jsstring list" where
  "Object_keys v = remdups (map fst (properties v))"

fun truthy :: "jsvalue \<Rightarrow> bool" where
  "truthy JUndefined = False"
| "truthy JNull = False"
| "truthy (JBoolean b) = b"
| "truthy (JNumber n) = (n \<noteq> 0)"
| "truthy (JString s) = (s \<noteq> [])"
| "truthy v = True"

text \<open>
  Errors: \<open>Error m\<close> is an \<open>Error\<close> whose message is the text \<open>m\<close>, \<open>ErrorOf v\<close> is
  \<open>new Error(v)\<close> for a value \<open>v\<close> taken from a message, \<open>TypeError\<close> is the one the runtime
  raises on a property access or an \<open>in\<close> test that the operand does not allow.
\<close>

datatype jserror = Error jsstring | ErrorOf jsvalue | TypeError

text \<open>How a call ends: it returns, or it throws; the client is in the given state then.\<close>

datatype 'a completion = Returns 'a | Throws jserror 'a

section \<open>Counters\<close>

text \<open>
  \<open>n++\<close> and \<open>++n\<close> on a counter. A JavaScript number is a double: a counter that starts at 0
  counts up to \<open>2^53\<close> and stays there, \<open>2^53 + 1\<close> being no double. The counters of the client
  (\<open>messageIdCounter\<close>, \<open>consecutiveFailures\<close>) start at 0 and are only ever incremented or set
  back to 0, so they hold values from 0 to \<open>2^53\<close>.
\<close>

definition increment :: "'a::linordered_semidom \<Rightarrow> 'a" where
  "increment n = (if n < 2 ^ 53 then n + 1 else n)"

section \<open>The client's state\<close>

text \<open>\<open>RDPClientOptions\<close>, with every field present (\<open>Required<RDPClientOptions>\<close>).\<close>

record RDPClientOptions =
  host :: jsstring
  port :: nat
  reconnectDelay :: nat
  maxReconnectAttempts :: nat
  timeout :: nat

definition DEFAULT_OPTIONS :: RDPClientOptions where
  "DEFAULT_OPTIONS = \<lparr>host = ascii ''127.0.0.1'', port = 6100, reconnectDelay = 1000,
     maxReconnectAttempts = 3, timeout = 30000\<rparr>"

definition ACTOR_CACHE_TTL_MS :: int where
  "ACTOR_CACHE_TTL_MS = 30000"

definition HEALTH_CHECK_THRESHOLD_MS :: int where
  "HEALTH_CHECK_THRESHOLD_MS = 10000"

record RootActor =
  applicationType :: jsvalue
  traits :: jsvalue

record TabActor =
  actorID :: jsstring
  title :: jsstring
  url :: jsstring
  outerWindowID :: "int option"

text \<open>
  \<open>ConnectionState\<close> of actors.ts. The fields \<open>connected\<close> and \<open>root\<close> carry a prime, the plain
  names being constants of the library.
\<close>

record ConnectionState =
  connected' :: bool
  root' :: "RootActor option"
  currentTab :: "TabActor option"
  consoleActor :: "jsstring option"
  inspectorActor :: "jsstring option"

definition createConnectionState :: ConnectionState where
  "createConnectionState = \<lparr>connected' = False, root' = None, currentTab = None,
     consoleActor = None, inspectorActor = None\<rparr>"

text \<open>What the client reads of its \<open>net.Socket\<close>.\<close>

record Socket =
  destroyed :: bool
  writable :: bool

text \<open>
  A \<open>PendingRequest\<close> holds the \<open>resolve\<close> and \<open>reject\<close> callbacks of the promise one
  \<open>sendMessage\<close> call returned, and that call's timeout timer. The model names the promise by
  the value of \<open>messageIdCounter\<close> the call drew.
\<close>

record PendingRequest =
  promise :: nat

text \<open>
  What the client does to the outside, in the order it does it: events emitted, promises
  settled, timers set and cleared, bytes written, sockets opened and destroyed.
\<close>

datatype effect =
    EmitMessage jsvalue
  | EmitError jserror
  | EmitActorsInvalidated jsstring
  | Resolve PendingRequest jsvalue
  | Reject PendingRequest jserror
  | ResolveConnect
  | SetTimeout PendingRequest nat
  | ClearTimeout PendingRequest
  | ClearInterval
  | SocketWrite "8 word list"
  | SocketDestroy
  | CreateConnection jsstring nat
  | SocketSetTimeout nat
  | Delay real
  | JSONParse jsstring

text \<open>
  The fields of class \<open>RDPClient\<close>. \<open>pendingRequests\<close> is a \<open>Map\<close>: its entries in insertion
  order. \<open>keepaliveTimer\<close> tells whether a timer is set. Three fields are not fields of the
  class: \<open>introListeners\<close> counts the \<open>handleIntro\<close> closures registered for "message" by
  \<open>connect\<close> calls still waiting for the intro packet, \<open>errorListener\<close> tells whether anyone
  listens for "error" (an \<open>EventEmitter\<close> throws the error it is asked to emit when nobody
  does), and \<open>trace\<close> is the list of effects so far.
\<close>

record RDPClient =
  options :: RDPClientOptions
  socket :: "Socket option"
  state :: ConnectionState
  pendingRequests :: "(jsstring \<times> PendingRequest) list"
  messageIdCounter :: nat
  buffer :: jsstring
  reconnectAttempts :: nat
  lastSuccessfulOperation :: int
  consoleActorCachedAt :: int
  consecutiveFailures :: int
  keepaliveTimer :: bool
  isKeepaliveEnabled :: bool
  introListeners :: nat
  errorListener :: bool
  trace :: "effect list"

definition perform :: "effect list \<Rightarrow> RDPClient \<Rightarrow> RDPClient" where
  "perform es s = s\<lparr>trace := trace s @ es\<rparr>"

subsection \<open>\<open>Map\<close> operations on \<open>pendingRequests\<close>\<close>

text \<open>\<open>m.set(k, v)\<close>: a new key goes to the end, a present key keeps its place.\<close>

fun Map_set :: "'k \<Rightarrow> 'v \<Rightarrow> ('k \<times> 'v) list \<Rightarrow> ('k \<times> 'v) list" where
  "Map_set k v [] = [(k, v)]"
| "Map_set k v ((k', v') # m) = (if k' = k then (k, v) # m else (k', v') # Map_set k v m)"

definition Map_delete :: "'k \<Rightarrow> ('k \<times> 'v) list \<Rightarrow> ('k \<times> 'v) list" where
  "Map_delete k m = filter (\<lambda>e. fst e \<noteq> k) m"

section \<open>Connection management\<close>

text \<open>
  \<open>connect()\<close> up to the promise it returns: \<open>True\<close> when the promise is already resolved.
  Otherwise a \<open>handleIntro\<close> listener is registered and a socket opened; \<open>sock\<close> is what
  \<open>createConnection\<close> returns (its encoding, its keep-alive and its handlers are set as well,
  which the trace leaves out). The promise is then settled by \<open>handleIntro\<close> or by the
  socket's "error" handler.
\<close>

definition connect :: "Socket \<Rightarrow> RDPClient \<Rightarrow> bool \<times> RDPClient" where
  "connect sock s =
     (if connected' (state s) \<and> socket s \<noteq> None then (True, s)
      else (False,
        perform [CreateConnection (host (options s)) (port (options s)),
                 SocketSetTimeout (timeout (options s))]
          (s\<lparr>introListeners := introListeners s + 1, socket := Some sock\<rparr>)))"

definition stopKeepalive :: "RDPClient \<Rightarrow> RDPClient" where
  "stopKeepalive s =
     (if keepaliveTimer s then perform [ClearInterval] (s\<lparr>keepaliveTimer := False\<rparr>) else s)"

definition connectionClosed :: jserror where
  "connectionClosed = Error (ascii ''Connection closed'')"

text \<open>
  \<open>disconnect()\<close>. The \<open>forEach\<close> clears the timer of every pending request and rejects it, in
  the order of the \<open>Map\<close>.
\<close>

definition disconnect :: "RDPClient \<Rightarrow> RDPClient" where
  "disconnect s =
     (let s1 = stopKeepalive s;
          s2 = (case socket s1 of
                  None \<Rightarrow> s1
                | Some sock \<Rightarrow> (perform [SocketDestroy] s1)\<lparr>socket := None\<rparr>);
          s3 = s2\<lparr>state := createConnectionState\<rparr>;
          s4 = perform (concat (map (\<lambda>(k, req). [ClearTimeout req, Reject req connectionClosed])
                 (pendingRequests s3))) s3
      in s4\<lparr>pendingRequests := []\<rparr>)"

text \<open>\<open>isConnected()\<close>: the answer, and the state (the flag is cleared on a dead socket).\<close>

definition isConnected :: "RDPClient \<Rightarrow> bool \<times> RDPClient" where
  "isConnected s =
     (case socket s of
        None \<Rightarrow> (False, s)
      | Some sock \<Rightarrow>
          if connected' (state s) then
            (if destroyed sock then (False, s\<lparr>state := (state s)\<lparr>connected' := False\<rparr>\<rparr>)
             else if writable sock then (True, s)
             else (False, s\<lparr>state := (state s)\<lparr>connected' := False\<rparr>\<rparr>))
          else (False, s))"

text \<open>\<open>!this.state.consoleActor\<close>: no actor, or the empty string.\<close>

definition noConsoleActor :: "RDPClient \<Rightarrow> bool" where
  "noConsoleActor s = (case consoleActor (state s) of None \<Rightarrow> True | Some a \<Rightarrow> a = [])"

text \<open>\<open>isActorCacheFresh()\<close>; \<open>now\<close> is what \<open>Date.now()\<close> returns there.\<close>

definition isActorCacheFresh :: "int \<Rightarrow> RDPClient \<Rightarrow> bool" where
  "isActorCacheFresh now s =
     (if noConsoleActor s then False
      else (let age = now - consoleActorCachedAt s in age < ACTOR_CACHE_TTL_MS))"

definition shouldCheckHealth :: "int \<Rightarrow> RDPClient \<Rightarrow> bool" where
  "shouldCheckHealth now s =
     (let timeSinceLastSuccess = now - lastSuccessfulOperation s
      in timeSinceLastSuccess > HEALTH_CHECK_THRESHOLD_MS)"

definition invalidateActorCache :: "RDPClient \<Rightarrow> RDPClient" where
  "invalidateActorCache s =
     s\<lparr>state := (state s)\<lparr>consoleActor := None, currentTab := None\<rparr>,
       consoleActorCachedAt := 0\<rparr>"

text \<open>
  \<open>reconnect()\<close> up to its first \<open>await\<close>, the delay of 100 ms. After the delay it awaits
  \<open>connect()\<close>, and after that it sets \<open>lastSuccessfulOperation\<close>.
\<close>

definition reconnect :: "RDPClient \<Rightarrow> RDPClient" where
  "reconnect s =
     (let s1 = invalidateActorCache s;
          s2 = s1\<lparr>state := (state s1)\<lparr>root' := None\<rparr>\<rparr>;
          s3 = s2\<lparr>consoleActorCachedAt := 0\<rparr>;
          s4 = disconnect s3
      in perform [Delay 100] s4)"

definition reconnect_afterDelay :: "Socket \<Rightarrow> RDPClient \<Rightarrow> bool \<times> RDPClient" where
  "reconnect_afterDelay sock s = connect sock s"

definition reconnect_afterConnect :: "int \<Rightarrow> RDPClient \<Rightarrow> RDPClient" where
  "reconnect_afterConnect now s = s\<lparr>lastSuccessfulOperation := now\<rparr>"

section \<open>Sending\<close>

definition notConnected :: "RDPClient \<Rightarrow> jserror" where
  "notConnected s = Error (ascii ''Not connected to Zotero. Ensure:'' @ [0x0A] @
     ascii ''1. Zotero is running'' @ [0x0A] @
     ascii ''2. MCP Bridge for Zotero plugin is installed'' @ [0x0A] @
     ascii ''3. Port '' @ toString (port (options s)) @ ascii '' is not blocked'')"

text \<open>The packet \<open>`${json.length}:${json}`\<close> of \<open>sendMessage\<close>.\<close>

definition packet :: "jsstring \<Rightarrow> jsstring" where
  "packet json = toString (length json) @ ascii '':'' @ json"

text \<open>
  \<open>sendMessage(message)\<close> up to the promise it returns. \<open>JSON_stringify\<close> is the runtime's
  \<open>JSON.stringify\<close>. The promise is settled later: by \<open>handleMessage\<close>, by \<open>disconnect\<close>, by
  the timeout timer or by the callback of \<open>write\<close>.
\<close>

definition sendMessage ::
  "(jsvalue \<Rightarrow> jsstring) \<Rightarrow> jsvalue \<Rightarrow> RDPClient \<Rightarrow> RDPClient completion" where
  "sendMessage JSON_stringify message s =
     (case socket s of
        None \<Rightarrow> Throws (notConnected s) s
      | Some sock \<Rightarrow>
          if connected' (state s) then
            (let s1 = s\<lparr>messageIdCounter := increment (messageIdCounter s)\<rparr>;
                 messageId = ascii ''msg-'' @ toString (messageIdCounter s1);
                 req = \<lparr>promise = messageIdCounter s1\<rparr>;
                 s2 = perform [SetTimeout req (timeout (options s1))] s1;
                 s3 = s2\<lparr>pendingRequests := Map_set messageId req (pendingRequests s2)\<rparr>;
                 json = JSON_stringify message
             in Returns (perform [SocketWrite (utf8_encode (packet json))] s3))
          else Throws (notConnected s) s)"

section \<open>Receiving\<close>

definition EVENT_TYPES :: "jsstring list" where
  "EVENT_TYPES = map ascii [''frameUpdate'', ''tabNavigated'', ''newSource'', ''tabDetached'',
     ''workerListChanged'', ''documentEvent'', ''pageError'', ''consoleAPICall'',
     ''reflowActivity'', ''styleSheetsAdded'', ''styleSheetsRemoved'']"

definition ACTOR_INVALIDATING_EVENTS :: "jsstring list" where
  "ACTOR_INVALIDATING_EVENTS = map ascii [''tabNavigated'', ''tabDetached'', ''frameUpdate'',
     ''workerListChanged'']"

text \<open>
  \<open>messageType && EVENT_TYPES.has(messageType)\<close>: the \<open>type\<close> of the message when it is one
  of the event names.
\<close>

definition eventType :: "jsvalue \<Rightarrow> jsstring option" where
  "eventType message =
     (case getProp message (ascii ''type'') of
        JString t \<Rightarrow> if t \<in> set EVENT_TYPES then Some t else None
      | v \<Rightarrow> None)"

text \<open>
  \<open>emit("message", message)\<close>. The listeners are the \<open>handleIntro\<close> closures of \<open>connect\<close>:
  on a message with \<open>applicationType\<close> each sets \<open>state.root\<close>, removes itself and resolves
  its promise.
\<close>

definition emit_message :: "jsvalue \<Rightarrow> RDPClient \<Rightarrow> RDPClient" where
  "emit_message message s =
     (let s1 = perform [EmitMessage message] s
      in if 0 < introListeners s1 \<and> hasKey (ascii ''applicationType'') message then
           perform (replicate (introListeners s1) ResolveConnect)
             (s1\<lparr>state := (state s1)\<lparr>root' := Some
                    \<lparr>applicationType = getProp message (ascii ''applicationType''),
                     traits = (if truthy (getProp message (ascii ''traits''))
                               then getProp message (ascii ''traits'') else JObject [])\<rparr>\<rparr>,
                 introListeners := 0\<rparr>)
         else s1)"

text \<open>The test for an acknowledgment of \<open>evaluateJSAsync\<close> in \<open>handleMessage\<close>.\<close>

definition isAcknowledgment :: "jsvalue \<Rightarrow> bool" where
  "isAcknowledgment message =
     (hasKey (ascii ''resultID'') message \<and> \<not> hasKey (ascii ''type'') message \<and>
      \<not> hasKey (ascii ''result'') message \<and> length (Object_keys message) \<le> 2)"

text \<open>What \<open>handleMessage\<close> does to the request it takes from the queue.\<close>

definition settle :: "PendingRequest \<Rightarrow> jsvalue \<Rightarrow> effect" where
  "settle pending message =
     (if hasKey (ascii ''error'') message then
        Reject pending (ErrorOf (if truthy (getProp message (ascii ''message''))
                                 then getProp message (ascii ''message'')
                                 else getProp message (ascii ''error'')))
      else Resolve pending message)"

text \<open>
  \<open>handleMessage(message)\<close>. \<open>JSON.parse\<close> may return a value that is no object: on \<open>null\<close>
  the read of \<open>message.type\<close> throws, on a number, string or boolean the test
  \<open>"resultID" in message\<close> does, in both cases before anything has happened.
\<close>

definition handleMessage :: "jsvalue \<Rightarrow> RDPClient \<Rightarrow> RDPClient completion" where
  "handleMessage message s =
     (if isObject message then
        (case eventType message of
           Some messageType \<Rightarrow>
             Returns (emit_message message
               (if messageType \<in> set ACTOR_INVALIDATING_EVENTS
                then perform [EmitActorsInvalidated messageType] (invalidateActorCache s)
                else s))
         | None \<Rightarrow>
             if isAcknowledgment message then Returns s
             else (case pendingRequests s of
                     [] \<Rightarrow> Returns (emit_message message s)
                   | (messageId, pending) # rest \<Rightarrow>
                       (let s1 = perform [ClearTimeout pending] s;
                            s2 = s1\<lparr>pendingRequests := Map_delete messageId (pendingRequests s1)\<rparr>
                        in Returns (perform [settle pending message] s2))))
      else Throws TypeError s)"

text \<open>\<open>emit("error", e)\<close>: with no listener the emitter throws \<open>e\<close>.\<close>

definition emit_error :: "jserror \<Rightarrow> RDPClient \<Rightarrow> RDPClient completion" where
  "emit_error e s = (if errorListener s then Returns (perform [EmitError e] s) else Throws e s)"

definition parseFailure :: "jsstring \<Rightarrow> jserror" where
  "parseFailure messageStr = Error (ascii ''Failed to parse RDP message: '' @ messageStr)"

text \<open>
  The \<open>try\<close> statement of \<open>processBuffer\<close>. \<open>JSON_parse\<close> is the runtime's \<open>JSON.parse\<close>, with
  \<open>None\<close> for a \<open>SyntaxError\<close>. The \<open>catch\<close> clause takes whatever was thrown.
\<close>

definition dispatch ::
  "(jsstring \<Rightarrow> jsvalue option) \<Rightarrow> jsstring \<Rightarrow> RDPClient \<Rightarrow> RDPClient completion" where
  "dispatch JSON_parse messageStr s =
     (case JSON_parse messageStr of
        None \<Rightarrow> emit_error (parseFailure messageStr) s
      | Some message \<Rightarrow>
          (case handleMessage message s of
             Returns s1 \<Rightarrow> Returns s1
           | Throws e s1 \<Rightarrow> emit_error (parseFailure messageStr) s1))"

text \<open>
  \<open>processBuffer()\<close>, the \<open>while (true)\<close> loop. The result is \<open>None\<close> when the loop does not
  end.
\<close>

partial_function (option) processBuffer ::
  "(jsstring \<Rightarrow> jsvalue option) \<Rightarrow> RDPClient \<Rightarrow> RDPClient completion option" where
  "processBuffer JSON_parse s =
     (case indexOf (buffer s) 0x3A of
        None \<Rightarrow> Some (Returns s)
      | Some colonIndex \<Rightarrow>
          (case parseInt (slice (buffer s) 0 (int colonIndex)) of
             None \<Rightarrow> processBuffer JSON_parse (s\<lparr>buffer := slice_from (buffer s) 1\<rparr>)
           | Some len \<Rightarrow>
               (let messageStart = int colonIndex + 1;
                    messageEnd = messageStart + len
                in if int (length (buffer s)) < messageEnd then Some (Returns s)
                   else (let messageStr = slice (buffer s) messageStart messageEnd;
                             s1 = s\<lparr>buffer := slice_from (buffer s) messageEnd\<rparr>
                         in case dispatch JSON_parse messageStr s1 of
                              Returns s2 \<Rightarrow> processBuffer JSON_parse s2
                            | Throws e s2 \<Rightarrow> Some (Throws e s2)))))"

definition handleData ::
  "(jsstring \<Rightarrow> jsvalue option) \<Rightarrow> jsstring \<Rightarrow> RDPClient \<Rightarrow> RDPClient completion option" where
  "handleData JSON_parse data s = processBuffer JSON_parse (s\<lparr>buffer := buffer s @ data\<rparr>)"

text \<open>
  The socket's "data" events, one after the other; an exception that leaves \<open>handleData\<close>
  ends the run.
\<close>

fun deliver ::
  "(jsstring \<Rightarrow> jsvalue option) \<Rightarrow> jsstring list \<Rightarrow> RDPClient \<Rightarrow> RDPClient completion option" where
  "deliver JSON_parse [] s = Some (Returns s)"
| "deliver JSON_parse (d # ds) s =
     (case handleData JSON_parse d s of
        Some (Returns s1) \<Rightarrow> deliver JSON_parse ds s1
      | r \<Rightarrow> r)"

section \<open>Evaluation and retries\<close>

text \<open>
  An \<open>async\<close> function runs from one \<open>await\<close> to the next without interruption. Each piece
  is a function here; it returns what the function awaits next, with the state at that
  moment, and the piece that follows takes the outcome of the awaited operation.
\<close>

text \<open>\<open>Math.min(1000 * Math.pow(2, consecutiveFailures - 1), 5000)\<close>.\<close>

definition backoffMs :: "int \<Rightarrow> real" where
  "backoffMs failures = min (1000 * 2 powi (failures - 1)) 5000"

definition isActorError :: "jsstring \<Rightarrow> bool" where
  "isActorError errorMessage = str_includes errorMessage (ascii ''No such actor'')"

definition isConnectionError :: "jsstring \<Rightarrow> bool" where
  "isConnectionError errorMessage =
     (str_includes errorMessage (ascii ''Not connected'') \<or>
      str_includes errorMessage (ascii ''Connection closed'') \<or>
      str_includes errorMessage (ascii ''ECONNRESET'') \<or>
      str_includes errorMessage (ascii ''EPIPE'') \<or>
      str_includes errorMessage (ascii ''ETIMEDOUT''))"

text \<open>
  What \<open>evaluateJS(code, retryCount)\<close> does next:
  \<^item> \<open>Await_reconnect s n\<close>: \<open>await this.reconnect()\<close>, then \<open>evaluateJS(code, n)\<close>;
  \<^item> \<open>Await_checkHealth s\<close>: \<open>await this.checkHealth()\<close>;
  \<^item> \<open>Await_ensureConsoleActor s\<close>: \<open>await this.ensureConsoleActor()\<close>, the discovery of
    the console actor;
  \<^item> \<open>Await_response s\<close>: the request is written, the response awaited;
  \<^item> \<open>Await_delay ms s n\<close>: \<open>await this.delay(ms)\<close>, then \<open>evaluateJS(code, n)\<close>;
  \<^item> \<open>Await_backoff ms s n\<close>: \<open>await this.delay(ms)\<close>, then \<open>await this.reconnect()\<close>, then
    \<open>evaluateJS(code, n)\<close>;
  \<^item> \<open>Throw e s\<close>: the call fails with \<open>e\<close>.
\<close>

datatype evaluateJS_step =
    Await_reconnect RDPClient nat
  | Await_checkHealth RDPClient
  | Await_ensureConsoleActor RDPClient
  | Await_response RDPClient
  | Await_delay real RDPClient nat
  | Await_backoff real RDPClient nat
  | Throw jserror RDPClient

definition maxRetries :: nat where
  "maxRetries = 2"

definition evaluateRequest :: "jsstring \<Rightarrow> jsstring \<Rightarrow> jsvalue" where
  "evaluateRequest actor code =
     JObject [(ascii ''to'', JString actor), (ascii ''type'', JString (ascii ''evaluateJSAsync'')),
              (ascii ''text'', JString code),
              (ascii ''mapped'', JObject [(ascii ''await'', JBoolean True)])]"

text \<open>The \<open>catch\<close> clause of \<open>evaluateJS\<close>; \<open>errorMessage\<close> is the text of what was caught.\<close>

definition evaluateJS_catch :: "nat \<Rightarrow> jserror \<Rightarrow> jsstring \<Rightarrow> RDPClient \<Rightarrow> evaluateJS_step" where
  "evaluateJS_catch retryCount error errorMessage s =
     (let s1 = s\<lparr>consecutiveFailures := increment (consecutiveFailures s)\<rparr>
      in if isActorError errorMessage \<and> retryCount < maxRetries then
           Await_delay (100 * (real retryCount + 1)) (invalidateActorCache s1) (retryCount + 1)
         else if isConnectionError errorMessage \<and> retryCount < maxRetries then
           Await_backoff (backoffMs (consecutiveFailures s1)) s1 (retryCount + 1)
         else Throw error s1)"

text \<open>
  From the check of the console actor to the write of the request. \<open>sendMessage\<close> throws
  inside the \<open>try\<close> block, and only an \<open>Error\<close> with a text.
\<close>

definition evaluateJS_send ::
  "(jsvalue \<Rightarrow> jsstring) \<Rightarrow> jsstring \<Rightarrow> nat \<Rightarrow> RDPClient \<Rightarrow> evaluateJS_step" where
  "evaluateJS_send JSON_stringify code retryCount s =
     (case consoleActor (state s) of
        None \<Rightarrow> Throw (Error (ascii ''No console actor available. Cannot execute JavaScript.'')) s
      | Some actor \<Rightarrow>
          if actor = [] then
            Throw (Error (ascii ''No console actor available. Cannot execute JavaScript.'')) s
          else (case sendMessage JSON_stringify (evaluateRequest actor code) s of
                  Returns s1 \<Rightarrow> Await_response s1
                | Throws e s1 \<Rightarrow>
                    (case e of
                       Error errorMessage \<Rightarrow> evaluateJS_catch retryCount e errorMessage s1
                     | other \<Rightarrow> Throw e s1)))"

text \<open>
  From the check of the cache's age on; \<open>now\<close> is what \<open>Date.now()\<close> returns in
  \<open>isActorCacheFresh\<close>.
\<close>

definition evaluateJS_checkActor ::
  "(jsvalue \<Rightarrow> jsstring) \<Rightarrow> jsstring \<Rightarrow> nat \<Rightarrow> int \<Rightarrow> RDPClient \<Rightarrow> evaluateJS_step" where
  "evaluateJS_checkActor JSON_stringify code retryCount now s =
     (let s1 = (if isActorCacheFresh now s then s else invalidateActorCache s)
      in if noConsoleActor s1 then Await_ensureConsoleActor s1
         else evaluateJS_send JSON_stringify code retryCount s1)"

text \<open>After \<open>ensureConsoleActor()\<close> has returned, at time \<open>now\<close>.\<close>

definition evaluateJS_afterEnsure ::
  "(jsvalue \<Rightarrow> jsstring) \<Rightarrow> jsstring \<Rightarrow> nat \<Rightarrow> int \<Rightarrow> RDPClient \<Rightarrow> evaluateJS_step" where
  "evaluateJS_afterEnsure JSON_stringify code retryCount now s =
     evaluateJS_send JSON_stringify code retryCount (s\<lparr>consoleActorCachedAt := now\<rparr>)"

text \<open>After \<open>checkHealth()\<close> has returned \<open>healthy\<close>.\<close>

definition evaluateJS_afterHealth ::
  "(jsvalue \<Rightarrow> jsstring) \<Rightarrow> jsstring \<Rightarrow> nat \<Rightarrow> bool \<Rightarrow> int \<Rightarrow> RDPClient \<Rightarrow> evaluateJS_step" where
  "evaluateJS_afterHealth JSON_stringify code retryCount healthy now s =
     (if healthy then evaluateJS_checkActor JSON_stringify code retryCount now s
      else Await_reconnect s (retryCount + 1))"

text \<open>
  The start of \<open>evaluateJS(code, retryCount)\<close>; \<open>nowHealth\<close> is what \<open>Date.now()\<close> returns
  in \<open>shouldCheckHealth\<close>, \<open>now\<close> what it returns in \<open>isActorCacheFresh\<close>.
\<close>

definition evaluateJS ::
  "(jsvalue \<Rightarrow> jsstring) \<Rightarrow> jsstring \<Rightarrow> nat \<Rightarrow> int \<Rightarrow> int \<Rightarrow> RDPClient \<Rightarrow> evaluateJS_step"
  where
  "evaluateJS JSON_stringify code retryCount nowHealth now s =
     (case isConnected s of
        (False, s1) \<Rightarrow>
          if retryCount < maxRetries then Await_reconnect s1 (retryCount + 1)
          else Throw (notConnected s1) s1
      | (True, s1) \<Rightarrow>
          if shouldCheckHealth nowHealth s1 \<and> retryCount = 0 then Await_checkHealth s1
          else evaluateJS_checkActor JSON_stringify code retryCount now s1)"

text \<open>After the response has arrived, at time \<open>now\<close>.\<close>

definition evaluateJS_afterResponse :: "int \<Rightarrow> RDPClient \<Rightarrow> RDPClient" where
  "evaluateJS_afterResponse now s = s\<lparr>lastSuccessfulOperation := now, consecutiveFailures := 0\<rparr>"

text \<open>
  What the \<open>catch\<close> clause of \<open>withRetry\<close> decides in attempt number \<open>attempt\<close>:
  \<^item> \<open>Retry_afterDelay ms s\<close>: \<open>await this.delay(ms)\<close>, then the next attempt;
  \<^item> \<open>Retry_afterBackoff ms s\<close>: \<open>await this.delay(ms)\<close>, \<open>await this.reconnect()\<close>, then
    the next attempt;
  \<^item> \<open>GiveUp s\<close>: leave the loop and throw the last error.
\<close>

datatype withRetry_step =
    Retry_afterDelay real RDPClient
  | Retry_afterBackoff real RDPClient
  | GiveUp RDPClient

definition withRetry_catch ::
  "nat \<Rightarrow> nat \<Rightarrow> bool \<Rightarrow> jsstring \<Rightarrow> RDPClient \<Rightarrow> withRetry_step" where
  "withRetry_catch attempt retries shouldInvalidateActors errorMessage s =
     (let s1 = s\<lparr>consecutiveFailures := increment (consecutiveFailures s)\<rparr>
      in if attempt \<ge> retries then GiveUp s1
         else if isActorError errorMessage \<or> shouldInvalidateActors then
           Retry_afterDelay (100 * (real attempt + 1)) (invalidateActorCache s1)
         else if isConnectionError errorMessage then
           Retry_afterBackoff (backoffMs (consecutiveFailures s1)) s1
         else GiveUp s1)"

section \<open>Grips\<close>

text \<open>
  \<open>GripValue\<close> of protocol.ts. \<open>GripObject actor class preview\<close> covers \<open>GripArray\<close> and
  \<open>GripError\<close>, which are objects of a particular class; \<open>GripLongString actor length
  initial\<close>; \<open>GripPreview kind ownProperties items\<close>, the two lists optional.
\<close>

datatype GripValue =
    GNull
  | GUndefined
  | GBoolean bool
  | GNumber real
  | GString jsstring
  | GripObject jsstring jsstring "GripPreview option"
  | GripSymbol jsstring
  | GripLongString jsstring real jsstring
and GripPreview =
    GripPreview jsstring "(jsstring \<times> GripValue) list option" "GripValue list option"

text \<open>A long-string grip as the object it is; \<open>gripToValue\<close> may return it unchanged.\<close>

definition longStringGrip :: "jsstring \<Rightarrow> real \<Rightarrow> jsstring \<Rightarrow> jsvalue" where
  "longStringGrip actor len initial =
     JObject [(ascii ''type'', JString (ascii ''longString'')), (ascii ''actor'', JString actor),
              (ascii ''length'', JNumber len), (ascii ''initial'', JString initial)]"

fun gripToValue :: "GripValue \<Rightarrow> jsvalue"
  and gripToValue_items :: "GripValue list \<Rightarrow> jsvalue list"
  and gripToValue_properties :: "(jsstring \<times> GripValue) list \<Rightarrow> (jsstring \<times> jsvalue) list" where
  "gripToValue GNull = JNull"
| "gripToValue GUndefined = JUndefined"
| "gripToValue (GBoolean b) = JBoolean b"
| "gripToValue (GNumber n) = JNumber n"
| "gripToValue (GString str) = JString str"
| "gripToValue (GripLongString actor len initial) =
     (if initial \<noteq> [] \<and> real (length initial) \<ge> len then JString initial
      else longStringGrip actor len initial)"
| "gripToValue (GripObject actor cls None) = JString (ascii ''['' @ cls @ ascii '']'')"
| "gripToValue (GripObject actor cls (Some (GripPreview kind None None))) =
     JString (ascii ''['' @ cls @ ascii '']'')"
| "gripToValue (GripObject actor cls (Some (GripPreview kind None (Some xs)))) =
     (if cls = ascii ''Array'' then JArray (gripToValue_items xs)
      else JString (ascii ''['' @ cls @ ascii '']''))"
| "gripToValue (GripObject actor cls (Some (GripPreview kind (Some props) None))) =
     JObject (gripToValue_properties props)"
| "gripToValue (GripObject actor cls (Some (GripPreview kind (Some props) (Some xs)))) =
     (if cls = ascii ''Array'' then JArray (gripToValue_items xs)
      else JObject (gripToValue_properties props))"
| "gripToValue (GripSymbol name) = JSymbol name"
| "gripToValue_items [] = []"
| "gripToValue_items (x # xs) = gripToValue x # gripToValue_items xs"
| "gripToValue_properties [] = []"
| "gripToValue_properties ((key, prop) # props) =
     (key, gripToValue prop) # gripToValue_properties props"

definition isLongString :: "jsvalue \<Rightarrow> bool" where
  "isLongString v =
     (isObject v \<and> hasKey (ascii ''type'') v \<and>
      getProp v (ascii ''type'') = JString (ascii ''longString'') \<and> hasKey (ascii ''actor'') v)"

text \<open>
  \<open>fetchLongString(actor, length)\<close>. \<open>send\<close> is the awaited \<open>sendMessage\<close>: it maps the request
  to the response the promise is resolved with, or to the error it is rejected with.
\<close>

definition fetchLongString ::
  "(jsvalue \<Rightarrow> jserror + jsvalue) \<Rightarrow> jsvalue \<Rightarrow> jsvalue \<Rightarrow> jserror + jsvalue" where
  "fetchLongString send actor len =
     (case send (JObject [(ascii ''to'', actor), (ascii ''type'', JString (ascii ''substring'')),
                          (ascii ''start'', JNumber 0), (ascii ''end'', len)]) of
        Inl e \<Rightarrow> Inl e
      | Inr response \<Rightarrow> Inr (getProp response (ascii ''substring'')))"

definition gripToValueAsync ::
  "(jsvalue \<Rightarrow> jserror + jsvalue) \<Rightarrow> GripValue \<Rightarrow> jserror + jsvalue" where
  "gripToValueAsync send grip =
     (let syncValue = gripToValue grip
      in if isLongString syncValue then
           fetchLongString send (getProp syncValue (ascii ''actor''))
             (getProp syncValue (ascii ''length''))
         else Inr syncValue)"

section \<open>Runs and sample values\<close>

text \<open>A client as the constructor leaves it: no socket, nothing pending, nobody listening.\<close>

definition newClient :: "RDPClientOptions \<Rightarrow> RDPClient" where
  "newClient opts = \<lparr>options = opts, socket = None, state = createConnectionState,
     pendingRequests = [], messageIdCounter = 0, buffer = [], reconnectAttempts = 0,
     lastSuccessfulOperation = 0, consoleActorCachedAt = 0, consecutiveFailures = 0,
     keepaliveTimer = False, isKeepaliveEnabled = True, introListeners = 0,
     errorListener = False, trace = []\<rparr>"

definition openSocket :: Socket where
  "openSocket = \<lparr>destroyed = False, writable = True\<rparr>"

text \<open>The same client once its socket is open.\<close>

definition connectedClient :: RDPClient where
  "connectedClient = (newClient DEFAULT_OPTIONS)\<lparr>socket := Some openSocket,
     state := createConnectionState\<lparr>connected' := True\<rparr>\<rparr>"

text \<open>A connected client with a cached console actor and two requests pending.\<close>

definition busyClient :: RDPClient where
  "busyClient = connectedClient\<lparr>
     state := createConnectionState\<lparr>connected' := True,
        root' := Some \<lparr>applicationType = JString (ascii ''browser''), traits = JObject []\<rparr>,
        consoleActor := Some (ascii ''conn0.console1'')\<rparr>,
     pendingRequests := [(ascii ''msg-1'', \<lparr>promise = 1\<rparr>), (ascii ''msg-2'', \<lparr>promise = 2\<rparr>)],
     messageIdCounter := 2,
     consoleActorCachedAt := 1000\<rparr>"

text \<open>The request \<open>fetchLongString(actor, length)\<close> sends for a long-string grip.\<close>

definition substringRequest :: "jsstring \<Rightarrow> real \<Rightarrow> jsvalue" where
  "substringRequest actor len =
     JObject [(ascii ''to'', JString actor), (ascii ''type'', JString (ascii ''substring'')),
              (ascii ''start'', JNumber 0), (ascii ''end'', JNumber len)]"

text \<open>A server that answers the substring request for actor \<open>s1\<close> with \<open>abcde\<close>.\<close>

definition stubSend :: "jsvalue \<Rightarrow> jserror + jsvalue" where
  "stubSend request =
     (if request = substringRequest (ascii ''s1'') 5
      then Inr (JObject [(ascii ''from'', JString (ascii ''s1'')),
                         (ascii ''substring'', JString (ascii ''abcde''))])
      else Inl (Error (ascii ''unexpected request'')))"

text \<open>ASCII text as the bytes on the wire.\<close>

definition bytes :: "string \<Rightarrow> 8 word list" where
  "bytes cs = map of_char cs"

text \<open>
  What \<open>JSON.stringify\<close> returns for the request \<open>evaluateJS\<close> sends to the actor
  \<open>conn0.console1\<close> when the code to evaluate is the one character U+00E9 (e with acute
  accent): \<open>JSON.stringify\<close> leaves a character outside ASCII as it is.
\<close>

definition requestText :: jsstring where
  \<open>requestText = ascii ''{"to":"conn0.console1","type":"evaluateJSAsync","text":"'' @ [0xE9] @
     ascii ''","mapped":{"await":true}}''\<close>

text \<open>A response: an object that is neither an event nor an acknowledgment.\<close>

definition isResponse :: "jsvalue \<Rightarrow> bool" where
  "isResponse message =
     (isObject message \<and> eventType message = None \<and> \<not> isAcknowledgment message)"

text \<open>Calls one after the other, up to the first that throws.\<close>

fun sendMessages ::
  "(jsvalue \<Rightarrow> jsstring) \<Rightarrow> jsvalue list \<Rightarrow> RDPClient \<Rightarrow> RDPClient completion" where
  "sendMessages JSON_stringify [] s = Returns s"
| "sendMessages JSON_stringify (m # ms) s =
     (case sendMessage JSON_stringify m s of
        Returns s1 \<Rightarrow> sendMessages JSON_stringify ms s1
      | Throws e s1 \<Rightarrow> Throws e s1)"

fun handleMessages :: "jsvalue list \<Rightarrow> RDPClient \<Rightarrow> RDPClient completion" where
  "handleMessages [] s = Returns s"
| "handleMessages (m # ms) s =
     (case handleMessage m s of
        Returns s1 \<Rightarrow> handleMessages ms s1
      | Throws e s1 \<Rightarrow> Throws e s1)"

text \<open>A request to the root actor, as \<open>getRoot\<close>, \<open>listProcesses\<close> and \<open>listTabs\<close> send it.\<close>

definition rootRequest :: "string \<Rightarrow> jsvalue" where
  "rootRequest operation =
     JObject [(ascii ''to'', JString (ascii ''root'')), (ascii ''type'', JString (ascii operation))]"

text \<open>Three responses: a plain one, an error, a result.\<close>

definition plainResponse :: jsvalue where
  "plainResponse = JObject [(ascii ''from'', JString (ascii ''root''))]"

definition errorResponse :: jsvalue where
  "errorResponse = JObject [(ascii ''from'', JString (ascii ''conn0.console9'')),
     (ascii ''error'', JString (ascii ''noSuchActor'')),
     (ascii ''message'', JString (ascii ''No such actor for ID: conn0.console9''))]"

definition resultResponse :: jsvalue where
  "resultResponse = JObject [(ascii ''from'', JString (ascii ''conn0.console1'')),
     (ascii ''resultID'', JString (ascii ''1'')), (ascii ''result'', JNumber 2)]"

text \<open>The text of \<open>plainResponse\<close>, and a parser that knows this one text.\<close>

definition plainText :: jsstring where
  \<open>plainText = ascii ''{"from":"root"}''\<close>

definition parsePlain :: "jsstring \<Rightarrow> jsvalue option" where
  "parsePlain str = (if str = plainText then Some plainResponse else None)"

text \<open>A serializer that knows the text of this one message.\<close>

definition stringifyPlain :: "jsvalue \<Rightarrow> jsstring" where
  "stringifyPlain m = plainText"

text \<open>A connected client on which discovery has just set the console actor.\<close>

definition discoveredClient :: RDPClient where
  "discoveredClient = connectedClient\<lparr>
     state := createConnectionState\<lparr>connected' := True,
        consoleActor := Some (ascii ''conn0.console1'')\<rparr>\<rparr>"

text \<open>
  An acknowledgment as the comment in \<open>handleMessage\<close> describes it (``These have only
  \<open>{ resultID, from }\<close>''): a \<open>resultID\<close>, no \<open>type\<close>, no \<open>result\<close>, and no field besides
  \<open>resultID\<close> and \<open>from\<close>.
\<close>

definition acknowledgmentFrame :: "jsvalue \<Rightarrow> bool" where
  "acknowledgmentFrame message =
     (hasKey (ascii ''resultID'') message \<and> \<not> hasKey (ascii ''type'') message \<and>
      \<not> hasKey (ascii ''result'') message \<and>
      set (Object_keys message) \<subseteq> {ascii ''resultID'', ascii ''from''})"

text \<open>
  A response frame: an object with the field \<open>from\<close>, which the type \<open>RDPResponse\<close> requires,
  that is neither a recognized event nor an acknowledgment.
\<close>

definition responseFrame :: "jsvalue \<Rightarrow> bool" where
  "responseFrame message =
     (isObject message \<and> hasKey (ascii ''from'') message \<and> eventType message = None \<and>
      \<not> acknowledgmentFrame message)"

text \<open>A frame with a \<open>resultID\<close> and an \<open>error\<close>, and without \<open>from\<close>.\<close>

definition errorFrame :: jsvalue where
  "errorFrame = JObject [(ascii ''resultID'', JString (ascii ''7'')),
     (ascii ''error'', JString (ascii ''unknownError''))]"

text \<open>
  The connected client after \<open>getRoot\<close>, \<open>listProcesses\<close> and \<open>listTabs\<close> have been sent, with
  \<open>stringifyPlain\<close> as the serializer.
\<close>

definition threeSent :: RDPClient where
  "threeSent = connectedClient\<lparr>messageIdCounter := 3,
     pendingRequests := [(ascii ''msg-1'', \<lparr>promise = 1\<rparr>), (ascii ''msg-2'', \<lparr>promise = 2\<rparr>),
                         (ascii ''msg-3'', \<lparr>promise = 3\<rparr>)],
     trace := [SetTimeout \<lparr>promise = 1\<rparr> 30000, SocketWrite (utf8_encode (packet plainText)),
               SetTimeout \<lparr>promise = 2\<rparr> 30000, SocketWrite (utf8_encode (packet plainText)),
               SetTimeout \<lparr>promise = 3\<rparr> 30000, SocketWrite (utf8_encode (packet plainText))]\<rparr>"

section \<open>Facts about strings\<close>

lemma unat_of_char: "unat (of_char c :: 16 word) = of_char c"
proof -
  have a: "(of_char c :: nat) < 256"
    by (metis of_char_mod_256 mod_less_divisor zero_less_numeral)
  have "(of_char c :: nat) < 2 ^ 16" by (rule order_less_trans[OF a]) simp
  moreover have "(of_char c :: 16 word) = of_nat (of_char c)" by (simp add: of_nat_of_char)
  ultimately show ?thesis by (simp add: unat_of_nat take_bit_nat_eq_self)
qed

lemma of_char_word_inj: "(of_char c :: 16 word) = of_char d \<longleftrightarrow> c = d"
proof
  assume h: "(of_char c :: 16 word) = of_char d"
  then have "unat (of_char c :: 16 word) = unat (of_char d :: 16 word)" by simp
  then have "(of_char c :: nat) = of_char d" by (simp only: unat_of_char)
  then show "c = d" by simp
qed simp

lemma ascii_eq_iff [simp]: "ascii a = ascii b \<longleftrightarrow> a = b"
  unfolding ascii_def by (simp add: inj_map_eq_map inj_on_def of_char_word_inj)

lemma ascii_Nil [simp]: "ascii [] = []"
  by (simp add: ascii_def)

lemma ascii_eq_Nil [simp]: "ascii a = [] \<longleftrightarrow> a = []"
  by (simp add: ascii_def)

lemma length_ascii [simp]: "length (ascii cs) = length cs"
  by (simp add: ascii_def)

section \<open>Facts about numbers as text\<close>

lemma isDigit_digitChar: "d < 10 \<Longrightarrow> isDigit (digitChar d)"
proof -
  assume "d < 10"
  then have "d \<in> {0, 1, 2, 3, 4, 5, 6, 7, 8, 9}" by auto
  then show ?thesis by (auto simp: isDigit_def digitChar_def)
qed

lemma digitChar_val: "d < 10 \<Longrightarrow> unat (digitChar d - 0x30) = d"
proof -
  assume "d < 10"
  then have "d \<in> {0, 1, 2, 3, 4, 5, 6, 7, 8, 9}" by auto
  then show ?thesis by (auto simp: digitChar_def)
qed

lemma toString_digits: "list_all isDigit (toString n)"
  by (induction n rule: toString.induct) (subst toString.simps, simp add: isDigit_digitChar)

lemma toString_nonempty: "toString n \<noteq> []"
  by (subst toString.simps) simp

lemma digitsValue_snoc: "digitsValue (ds @ [c]) = 10 * digitsValue ds + unat (c - 0x30)"
  by (simp add: digitsValue_def)

lemma digitsValue_toString: "digitsValue (toString n) = n"
proof (induction n rule: toString.induct)
  case (1 n)
  show ?case
  proof (cases "n < 10")
    case True
    then show ?thesis by (subst toString.simps) (simp add: digitsValue_def digitChar_val)
  next
    case False
    then have "digitsValue (toString n) = 10 * digitsValue (toString (n div 10)) + n mod 10"
      by (subst toString.simps) (simp add: digitsValue_snoc digitChar_val)
    with 1 False show ?thesis by simp
  qed
qed

lemma toString_eq_iff [simp]: "toString m = toString n \<longleftrightarrow> m = n"
  by (metis digitsValue_toString)

lemma isDigit_not_ws: "isDigit c \<Longrightarrow> \<not> isWhiteSpace c"
  unfolding isDigit_def isWhiteSpace_def
  by (auto simp: word_le_nat_alt)

lemma parseInt_toString: "parseInt (toString n) = Some (int n)"
proof -
  obtain c r where cr: "toString n = c # r" using toString_nonempty by (cases "toString n") auto
  have all: "list_all isDigit (c # r)" using toString_digits[of n] cr by simp
  then have c: "isDigit c" by simp
  have nws: "\<not> isWhiteSpace c" using c by (rule isDigit_not_ws)
  have ns: "c \<noteq> 0x2B" "c \<noteq> 0x2D" using c by (auto simp: isDigit_def)
  have tw: "takeWhile isDigit (c # r) = c # r" using all by (simp add: list_all_iff)
  have "digitsValue (c # r) = n" using digitsValue_toString[of n] cr by simp
  then show ?thesis using cr nws ns tw by (simp add: parseInt_def)
qed

section \<open>Facts about frames\<close>

lemma colon_not_digit: "\<not> isDigit 0x3A"
  by (simp add: isDigit_def)

lemma colon_notin_digits: "list_all isDigit ds \<Longrightarrow> 0x3A \<notin> set ds"
  using colon_not_digit by (auto simp: list_all_iff)

lemma indexOf_append_notin: "c \<notin> set xs \<Longrightarrow> indexOf (xs @ c # ys) c = Some (length xs)"
  by (induction xs) auto

lemma indexOf_None: "c \<notin> set xs \<Longrightarrow> indexOf xs c = None"
  by (induction xs) auto

lemma slice_prefix: "slice (xs @ ys) 0 (int (length xs)) = xs"
  by (simp add: slice_def)

lemma slice_payload:
  "slice (xs @ c # ys) (int (length xs) + 1) (int (length xs) + 1 + int (length ys)) = ys"
  by (simp add: slice_def nat_add_distrib)

lemma slice_from_end:
  "slice_from (xs @ c # ys) (int (length xs) + 1 + int (length ys)) = []"
  by (simp add: slice_from_def slice_def)

lemma emit_message_preserves:
  "buffer (emit_message m s) = buffer s" "errorListener (emit_message m s) = errorListener s"
  by (simp_all add: emit_message_def Let_def perform_def)

lemma handleMessage_Returns:
  assumes "handleMessage m s = Returns s1"
  shows "buffer s1 = buffer s \<and> errorListener s1 = errorListener s"
  using assms
  by (auto simp: handleMessage_def Let_def perform_def invalidateActorCache_def
      emit_message_preserves split: if_splits option.splits list.splits)

lemma handleMessage_Throws: "handleMessage m s = Throws e s1 \<Longrightarrow> s1 = s"
  by (auto simp: handleMessage_def Let_def split: if_splits option.splits list.splits)

lemma handleMessage_object: "isObject m \<Longrightarrow> \<exists>s1. handleMessage m s = Returns s1"
  by (auto simp: handleMessage_def Let_def split: option.splits list.splits)

lemma dispatch_Returns_buffer:
  assumes "dispatch P str s = Returns s2"
  shows "buffer s2 = buffer s"
proof (cases "P str")
  case None
  then show ?thesis using assms
    by (auto simp: dispatch_def emit_error_def perform_def split: if_splits)
next
  case (Some m)
  show ?thesis
  proof (cases "handleMessage m s")
    case (Returns s1)
    then show ?thesis using Some assms handleMessage_Returns [OF Returns]
      by (simp add: dispatch_def)
  next
    case (Throws e s1)
    then have "s1 = s" by (rule handleMessage_Throws)
    then show ?thesis using Some Throws assms
      by (auto simp: dispatch_def emit_error_def perform_def split: if_splits)
  qed
qed

lemma processBuffer_empty: "buffer s = [] \<Longrightarrow> processBuffer P s = Some (Returns s)"
  by (subst processBuffer.simps) simp

lemma processBuffer_no_colon:
  "0x3A \<notin> set (buffer s) \<Longrightarrow> processBuffer P s = Some (Returns s)"
  by (subst processBuffer.simps) (simp add: indexOf_None)

lemma processBuffer_incomplete:
  assumes "buffer s = toString n @ 0x3A # k" and "length k < n"
  shows "processBuffer P s = Some (Returns s)"
proof -
  have i: "indexOf (buffer s) 0x3A = Some (length (toString n))"
    using assms(1) indexOf_append_notin [OF colon_notin_digits [OF toString_digits]] by simp
  have p: "parseInt (slice (buffer s) 0 (int (length (toString n)))) = Some (int n)"
    using assms(1) slice_prefix [of "toString n"] parseInt_toString by simp
  have l: "int (length (buffer s)) < int (length (toString n)) + 1 + int n"
    using assms by simp
  show ?thesis
    by (subst processBuffer.simps) (simp add: i p l Let_def)
qed

lemma processBuffer_complete:
  assumes "buffer s = packet json"
  shows "processBuffer P s = Some (dispatch P json (s\<lparr>buffer := []\<rparr>))"
proof -
  let ?T = "toString (length json)"
  have b: "buffer s = ?T @ 0x3A # json" using assms by (simp add: packet_def ascii_def)
  have i: "indexOf (buffer s) 0x3A = Some (length ?T)"
    using b indexOf_append_notin [OF colon_notin_digits [OF toString_digits]] by simp
  have p: "parseInt (slice (buffer s) 0 (int (length ?T))) = Some (int (length json))"
    using b slice_prefix [of ?T] parseInt_toString by simp
  have m: "slice (buffer s) (int (length ?T) + 1) (int (length ?T) + 1 + int (length json)) = json"
    using b slice_payload by simp
  have r: "slice_from (buffer s) (int (length ?T) + 1 + int (length json)) = []"
    using b slice_from_end by simp
  have l: "\<not> int (length (buffer s)) < int (length ?T) + 1 + int (length json)"
    using b by simp
  have step: "processBuffer P s =
      (case dispatch P json (s\<lparr>buffer := []\<rparr>) of
         Returns s2 \<Rightarrow> processBuffer P s2
       | Throws e s2 \<Rightarrow> Some (Throws e s2))"
    by (subst processBuffer.simps) (simp add: i p m r l Let_def)
  show ?thesis
  proof (cases "dispatch P json (s\<lparr>buffer := []\<rparr>)")
    case (Returns s2)
    then have "buffer s2 = []" using dispatch_Returns_buffer [OF Returns] by simp
    then show ?thesis using step Returns by (simp add: processBuffer_empty)
  next
    case (Throws e s2)
    then show ?thesis using step by simp
  qed
qed

lemma strict_prefix_of_packet:
  assumes "b @ r = packet json" and "r \<noteq> []"
  shows "0x3A \<notin> set b \<or> (\<exists>k. b = toString (length json) @ 0x3A # k \<and> length k < length json)"
proof -
  let ?T = "toString (length json)"
  have nc: "0x3A \<notin> set ?T" by (rule colon_notin_digits [OF toString_digits])
  have "b @ r = ?T @ (0x3A # json)" using assms(1) by (simp add: packet_def ascii_def)
  then obtain us where us: "(b = ?T @ us \<and> us @ r = 0x3A # json) \<or> (b @ us = ?T \<and> r = us @ 0x3A # json)"
    by (auto simp: append_eq_append_conv2)
  then show ?thesis
  proof
    assume h: "b = ?T @ us \<and> us @ r = 0x3A # json"
    show ?thesis
    proof (cases us)
      case Nil
      then show ?thesis using h nc by simp
    next
      case (Cons u k)
      then have "u = 0x3A" "k @ r = json" using h by auto
      then have "length k < length json" using assms(2) by auto
      then show ?thesis using h Cons \<open>u = 0x3A\<close> by auto
    qed
  next
    assume h: "b @ us = ?T \<and> r = us @ 0x3A # json"
    then have "set b \<subseteq> set ?T" by (metis set_append Un_upper1)
    then show ?thesis using nc by auto
  qed
qed

lemma processBuffer_strict_prefix:
  assumes "buffer s @ r = packet json" and "r \<noteq> []"
  shows "processBuffer P s = Some (Returns s)"
  using strict_prefix_of_packet [OF assms] processBuffer_no_colon processBuffer_incomplete
  by blast

lemma deliver_empty_chunks:
  "buffer s = [] \<Longrightarrow> concat chunks = [] \<Longrightarrow> deliver P chunks s = Some (Returns s)"
proof (induction chunks)
  case Nil
  then show ?case by simp
next
  case (Cons d ds)
  then have d: "d = []" and ds: "concat ds = []" by auto
  have same: "s\<lparr>buffer := buffer s @ d\<rparr> = s" using d by simp
  have "processBuffer P s = Some (Returns s)"
    using Cons.prems(1) by (rule processBuffer_empty)
  then have "handleData P d s = Some (Returns s)"
    unfolding handleData_def same .
  moreover have "deliver P ds s = Some (Returns s)" using Cons.IH Cons.prems(1) ds by blast
  ultimately show ?case by simp
qed

lemma deliver_packet:
  assumes "buffer s @ concat chunks = packet json" and "concat chunks \<noteq> []"
  shows "deliver P chunks s = Some (dispatch P json (s\<lparr>buffer := []\<rparr>))"
  using assms
proof (induction chunks arbitrary: s)
  case Nil
  then show ?case by simp
next
  case (Cons d ds)
  let ?s = "s\<lparr>buffer := buffer s @ d\<rparr>"
  show ?case
  proof (cases "concat ds = []")
    case True
    then have full: "buffer ?s = packet json"
      using Cons.prems(1) by (simp del: concat_eq_Nil_conv)
    have pb: "processBuffer P ?s = Some (dispatch P json (s\<lparr>buffer := []\<rparr>))"
      using processBuffer_complete [OF full, of P] by simp
    show ?thesis
    proof (cases "dispatch P json (s\<lparr>buffer := []\<rparr>)")
      case (Returns s2)
      then have "buffer s2 = []" using dispatch_Returns_buffer [OF Returns] by simp
      then have "deliver P ds s2 = Some (Returns s2)"
        using True by (rule deliver_empty_chunks)
      then show ?thesis using pb Returns by (simp add: handleData_def)
    next
      case (Throws e s2)
      then show ?thesis using pb by (simp add: handleData_def)
    qed
  next
    case False
    have "buffer ?s @ concat ds = packet json" using Cons.prems by simp
    then have pb: "processBuffer P ?s = Some (Returns ?s)"
      using processBuffer_strict_prefix False by blast
    have "deliver P ds ?s = Some (dispatch P json (?s\<lparr>buffer := []\<rparr>))"
      using Cons.IH [of ?s] Cons.prems False by simp
    then show ?thesis using pb by (simp add: handleData_def)
  qed
qed

lemma packet_plainText: \<open>packet plainText = ascii ''15:{"from":"root"}''\<close>
  by (simp add: packet_def plainText_def toString.simps digitChar_def ascii_def)

section \<open>Facts about sending\<close>

lemma sendMessage_Returns:
  assumes "socket s = Some sock" and "connected' (state s)"
  shows "sendMessage S m s =
     Returns (s\<lparr>messageIdCounter := increment (messageIdCounter s),
        pendingRequests := Map_set (ascii ''msg-'' @ toString (increment (messageIdCounter s)))
           \<lparr>promise = increment (messageIdCounter s)\<rparr> (pendingRequests s),
        trace := trace s @
           [SetTimeout \<lparr>promise = increment (messageIdCounter s)\<rparr> (timeout (options s)),
            SocketWrite (utf8_encode (packet (S m)))]\<rparr>)"
  using assms by (simp add: sendMessage_def Let_def perform_def)

lemma sendMessage_connected:
  "socket s = Some sock \<Longrightarrow> connected' (state s) \<Longrightarrow> \<exists>s1. sendMessage S m s = Returns s1"
  by (simp add: sendMessage_def Let_def)

text \<open>\<open>sendMessage\<close> leaves the connection and the cache as they are.\<close>

lemma sendMessage_keeps:
  assumes "sendMessage S m s = Returns s1"
  shows "state s1 = state s \<and> socket s1 = socket s \<and>
     consoleActorCachedAt s1 = consoleActorCachedAt s \<and>
     lastSuccessfulOperation s1 = lastSuccessfulOperation s"
  using assms
  by (auto simp: sendMessage_def Let_def perform_def split: option.splits if_splits)

section \<open>The backoff schedule\<close>

lemma evaluateJS_catch_connection:
  "isConnectionError m \<Longrightarrow> \<not> isActorError m \<Longrightarrow> retryCount < maxRetries \<Longrightarrow>
   evaluateJS_catch retryCount e m s =
     Await_backoff (backoffMs (increment (consecutiveFailures s)))
       (s\<lparr>consecutiveFailures := increment (consecutiveFailures s)\<rparr>) (retryCount + 1)"
  by (simp add: evaluateJS_catch_def Let_def)

lemma withRetry_catch_connection:
  "isConnectionError m \<Longrightarrow> \<not> isActorError m \<Longrightarrow> \<not> invalidate \<Longrightarrow> attempt < retries \<Longrightarrow>
   withRetry_catch attempt retries invalidate m s =
     Retry_afterBackoff (backoffMs (increment (consecutiveFailures s)))
       (s\<lparr>consecutiveFailures := increment (consecutiveFailures s)\<rparr>)"
  by (simp add: withRetry_catch_def Let_def)

lemma ECONNRESET_connection: "isConnectionError (ascii ''read ECONNRESET'')"
  by (simp add: isConnectionError_def ascii_def)

lemma ECONNRESET_not_actor: "\<not> isActorError (ascii ''read ECONNRESET'')"
  by (simp add: isActorError_def ascii_def)

text \<open>
  Claim C9. The delay before a retry after a connection error is
  \<open>min (1000 * 2 ^ (failures - 1)) 5000\<close>: 1000, 2000, 4000 and 5000 ms for the first, second,
  third and fourth consecutive failure. Both places that compute it agree: the \<open>catch\<close>
  clause of \<open>evaluateJS\<close> and the one of \<open>withRetry\<close>, each of which has counted the failure
  at hand before it computes the delay (the state holds \<open>n - 1\<close> failures when the \<open>n\<close>-th is
  caught). The error here is a connection reset.
\<close>

theorem backoff_schedule:
  "map backoffMs [1, 2, 3, 4] = [1000, 2000, 4000, 5000] \<and>
   map (\<lambda>n. evaluateJS_catch 0 e (ascii ''read ECONNRESET'') (s\<lparr>consecutiveFailures := n - 1\<rparr>))
       [1, 2, 3, 4] =
     map (\<lambda>(n, ms). Await_backoff ms (s\<lparr>consecutiveFailures := n\<rparr>) 1)
       [(1, 1000), (2, 2000), (3, 4000), (4, 5000)] \<and>
   map (\<lambda>n. withRetry_catch 0 2 False (ascii ''read ECONNRESET'') (s\<lparr>consecutiveFailures := n - 1\<rparr>))
       [1, 2, 3, 4] =
     map (\<lambda>(n, ms). Retry_afterBackoff ms (s\<lparr>consecutiveFailures := n\<rparr>))
       [(1, 1000), (2, 2000), (3, 4000), (4, 5000)]"
  by (simp add: evaluateJS_catch_connection withRetry_catch_connection ECONNRESET_connection
      ECONNRESET_not_actor maxRetries_def backoffMs_def increment_def)

section \<open>Connecting twice\<close>

text \<open>
  Claim C10. With the connection flag set and a socket present, \<open>connect()\<close> returns a
  resolved promise and does nothing else: the state is the one before the call, so no
  socket has been opened, no listener for the intro packet registered, and the connection
  state, the cached root and console actor and the pending requests are what they were.
\<close>

theorem connect_when_connected:
  "connected' (state s) \<Longrightarrow> socket s \<noteq> None \<Longrightarrow> connect sock s = (True, s)"
  by (simp add: connect_def)

theorem connect_when_connected_witness:
  "connected' (state connectedClient) \<and> socket connectedClient \<noteq> None \<and>
   connect openSocket connectedClient = (True, connectedClient)"
  using connect_when_connected [of connectedClient openSocket]
  by (simp add: connectedClient_def newClient_def)

section \<open>Acknowledgments\<close>

lemma length_Object_keys:
  assumes "set (Object_keys message) \<subseteq> {a, b}"
  shows "length (Object_keys message) \<le> 2"
proof -
  have "distinct (Object_keys message)" by (simp add: Object_keys_def)
  then have "length (Object_keys message) = card (set (Object_keys message))"
    by (simp add: distinct_card)
  also have "\<dots> \<le> card {a, b}" using assms by (intro card_mono) auto
  also have "\<dots> \<le> 2" by (simp add: card_insert_le_m1)
  finally show ?thesis .
qed

lemma hasKey_isObject: "hasKey k message \<Longrightarrow> isObject message"
  by (cases message) (auto simp: hasKey_def)

lemma eventType_no_type: "\<not> hasKey (ascii ''type'') message \<Longrightarrow> eventType message = None"
proof -
  assume "\<not> hasKey (ascii ''type'') message"
  then have "map_of (properties message) (ascii ''type'') = None"
    by (simp add: hasKey_def map_of_eq_None_iff)
  then show ?thesis by (simp add: eventType_def getProp_def)
qed

text \<open>
  Claim C5. A message that has a \<open>resultID\<close>, no \<open>type\<close>, no \<open>result\<close> and no field besides
  \<open>resultID\<close> and \<open>from\<close> is dropped by \<open>handleMessage\<close>: the call returns with the state it
  was given. So the queue of pending requests is unchanged, and nothing has been added to
  the trace: no request resolved or rejected, no event emitted.
\<close>

theorem acknowledgment_suppressed:
  assumes "hasKey (ascii ''resultID'') message"
    and "\<not> hasKey (ascii ''type'') message"
    and "\<not> hasKey (ascii ''result'') message"
    and "set (Object_keys message) \<subseteq> {ascii ''resultID'', ascii ''from''}"
  shows "handleMessage message s = Returns s"
proof -
  have "isAcknowledgment message"
    using assms length_Object_keys [OF assms(4)] by (simp add: isAcknowledgment_def)
  then show ?thesis
    using hasKey_isObject [OF assms(1)] eventType_no_type [OF assms(2)]
    by (simp add: handleMessage_def)
qed

theorem acknowledgment_suppressed_witness:
  "hasKey (ascii ''resultID'') (JObject [(ascii ''resultID'', JString (ascii ''1'')),
      (ascii ''from'', JString (ascii ''conn0.console1''))]) \<and>
   handleMessage (JObject [(ascii ''resultID'', JString (ascii ''1'')),
      (ascii ''from'', JString (ascii ''conn0.console1''))]) connectedClient =
     Returns connectedClient"
  using acknowledgment_suppressed [of "JObject [(ascii ''resultID'', JString (ascii ''1'')),
      (ascii ''from'', JString (ascii ''conn0.console1''))]" connectedClient]
  by (simp add: hasKey_def Object_keys_def)

section \<open>Reconnecting\<close>

lemma disconnect_fields:
  "pendingRequests (disconnect s) = []"
  "state (disconnect s) = createConnectionState"
  "socket (disconnect s) = None"
  "consoleActorCachedAt (disconnect s) = consoleActorCachedAt s"
  "introListeners (disconnect s) = introListeners s"
  "options (disconnect s) = options s"
  by (simp_all add: disconnect_def Let_def perform_def stopKeepalive_def split: option.splits)

lemma disconnect_trace:
  "trace (disconnect s) = trace s @ (if keepaliveTimer s then [ClearInterval] else []) @
     (if socket s = None then [] else [SocketDestroy]) @
     concat (map (\<lambda>(k, req). [ClearTimeout req, Reject req connectionClosed]) (pendingRequests s))"
  by (simp add: disconnect_def Let_def perform_def stopKeepalive_def split: option.splits)

text \<open>
  Claim C6. When \<open>reconnect()\<close> reaches its first \<open>await\<close>, the delay of 100 ms, no request
  is pending, the console actor and the root are cleared, the time of caching is zero and
  the socket is gone. Until then it has stopped the keepalive timer if one was set,
  destroyed the socket if there was one, and, for every request that was pending, in the
  order of sending, cleared its timer and rejected it with the error "Connection closed";
  it has not opened a connection. The connection is opened after the delay, by \<open>connect()\<close>,
  from that cleared state.
\<close>

theorem reconnect_clears_state:
  "pendingRequests (reconnect s) = [] \<and>
   consoleActor (state (reconnect s)) = None \<and>
   root' (state (reconnect s)) = None \<and>
   consoleActorCachedAt (reconnect s) = 0 \<and>
   socket (reconnect s) = None \<and>
   trace (reconnect s) = trace s @ (if keepaliveTimer s then [ClearInterval] else []) @
     (if socket s = None then [] else [SocketDestroy]) @
     concat (map (\<lambda>(k, req). [ClearTimeout req, Reject req connectionClosed]) (pendingRequests s)) @
     [Delay 100] \<and>
   reconnect_afterDelay sock (reconnect s) =
     (False, perform [CreateConnection (host (options s)) (port (options s)),
                      SocketSetTimeout (timeout (options s))]
        ((reconnect s)\<lparr>introListeners := introListeners s + 1, socket := Some sock\<rparr>))"
  by (simp add: reconnect_def Let_def perform_def disconnect_fields disconnect_trace
      invalidateActorCache_def createConnectionState_def reconnect_afterDelay_def connect_def)

theorem reconnect_clears_state_witness:
  "pendingRequests (reconnect busyClient) = [] \<and>
   consoleActor (state (reconnect busyClient)) = None \<and>
   root' (state (reconnect busyClient)) = None \<and>
   trace (reconnect busyClient) =
     [SocketDestroy,
      ClearTimeout \<lparr>promise = 1\<rparr>, Reject \<lparr>promise = 1\<rparr> (Error (ascii ''Connection closed'')),
      ClearTimeout \<lparr>promise = 2\<rparr>, Reject \<lparr>promise = 2\<rparr> (Error (ascii ''Connection closed'')),
      Delay 100]"
  using reconnect_clears_state [of busyClient openSocket]
  by (simp add: busyClient_def connectedClient_def newClient_def connectionClosed_def)

section \<open>The age of the cached console actor\<close>

lemma evaluateJS_send_connected:
  assumes "consoleActor (state s) = Some actor" and "actor \<noteq> []"
    and "sendMessage S (evaluateRequest actor code) s = Returns s1"
  shows "evaluateJS_send S code retryCount s = Await_response s1"
  using assms by (simp add: evaluateJS_send_def)

lemma evaluateJS_catch_no_response: "evaluateJS_catch retryCount e m s \<noteq> Await_response s1"
  by (simp add: evaluateJS_catch_def Let_def)

text \<open>
  When \<open>evaluateJS_send\<close> ends with the request written, there was a console actor, and the
  state is the one \<open>sendMessage\<close> returned.
\<close>

lemma evaluateJS_send_response:
  assumes "evaluateJS_send S code retryCount s = Await_response s1"
  shows "\<exists>actor. consoleActor (state s) = Some actor \<and> actor \<noteq> [] \<and>
     sendMessage S (evaluateRequest actor code) s = Returns s1"
proof (cases "consoleActor (state s)")
  case None
  then show ?thesis using assms by (simp add: evaluateJS_send_def)
next
  case (Some actor)
  show ?thesis
  proof (cases "actor = []")
    case True
    then show ?thesis using assms Some by (simp add: evaluateJS_send_def)
  next
    case False
    show ?thesis
    proof (cases "sendMessage S (evaluateRequest actor code) s")
      case (Returns s2)
      then show ?thesis using assms Some False by (simp add: evaluateJS_send_def)
    next
      case (Throws e s2)
      then show ?thesis using assms Some False evaluateJS_catch_no_response
        by (cases e) (simp_all add: evaluateJS_send_def)
    qed
  qed
qed

text \<open>
  The caching: when \<open>evaluateJS\<close> has gone on after \<open>ensureConsoleActor()\<close> returned at time
  \<open>t0\<close> and has written its request, a console actor is set and the time of caching is
  \<open>t0\<close>.
\<close>

lemma evaluateJS_afterEnsure_caches:
  assumes "evaluateJS_afterEnsure S code retryCount t0 s0 = Await_response s1"
  shows "\<exists>actor. consoleActor (state s1) = Some actor \<and> actor \<noteq> [] \<and>
     consoleActorCachedAt s1 = t0"
proof -
  let ?s = "s0\<lparr>consoleActorCachedAt := t0\<rparr>"
  obtain actor where a: "consoleActor (state ?s) = Some actor" "actor \<noteq> []"
    "sendMessage S (evaluateRequest actor code) ?s = Returns s1"
    using evaluateJS_send_response [of S code retryCount ?s s1] assms
    by (auto simp: evaluateJS_afterEnsure_def)
  show ?thesis using sendMessage_keeps [OF a(3)] a(1,2) by auto
qed

text \<open>Once discovery has set a console actor, the request goes to that actor.\<close>

lemma evaluateJS_afterEnsure_sends:
  assumes "consoleActor (state s) = Some actor" and "actor \<noteq> []"
    and "socket s = Some sock" and "connected' (state s)"
  shows "\<exists>s1. sendMessage S (evaluateRequest actor code) (s\<lparr>consoleActorCachedAt := now\<rparr>) =
            Returns s1 \<and>
     evaluateJS_afterEnsure S code retryCount now s = Await_response s1"
proof -
  let ?s = "s\<lparr>consoleActorCachedAt := now\<rparr>"
  obtain s1 where s1: "sendMessage S (evaluateRequest actor code) ?s = Returns s1"
    using sendMessage_connected [of ?s sock] assms(3,4) by auto
  have "evaluateJS_send S code retryCount ?s = Await_response s1"
    using evaluateJS_send_connected [of ?s actor S code s1] assms(1,2) s1 by simp
  then show ?thesis using s1 by (simp add: evaluateJS_afterEnsure_def)
qed

text \<open>
  \<open>evaluateJS\<close> on a live connection: the health check when it is due (more than ten
  seconds since the last success, in a first attempt), the check of the cache otherwise.
\<close>

lemma evaluateJS_live:
  assumes "socket s = Some sock" and "connected' (state s)"
    and "\<not> destroyed sock" and "writable sock"
  shows "evaluateJS S code retryCount nowHealth now s =
     (if shouldCheckHealth nowHealth s \<and> retryCount = 0 then Await_checkHealth s
      else evaluateJS_checkActor S code retryCount now s)"
  using assms by (simp add: evaluateJS_def isConnected_def)

lemma evaluateJS_afterHealth_healthy:
  "evaluateJS_afterHealth S code retryCount True now s =
     evaluateJS_checkActor S code retryCount now s"
  by (simp add: evaluateJS_afterHealth_def)

text \<open>The check of the cache at time \<open>now\<close>.\<close>

lemma checkActor_fresh:
  assumes "consoleActor (state s) = Some actor" and "actor \<noteq> []"
    and "socket s = Some sock" and "connected' (state s)"
    and "now - consoleActorCachedAt s < ACTOR_CACHE_TTL_MS"
  shows "\<exists>s2. sendMessage S (evaluateRequest actor code) s = Returns s2 \<and>
     evaluateJS_checkActor S code retryCount now s = Await_response s2"
proof -
  obtain s2 where s2: "sendMessage S (evaluateRequest actor code) s = Returns s2"
    using sendMessage_connected [OF assms(3,4)] by blast
  have "isActorCacheFresh now s"
    using assms(1,2,5) by (simp add: isActorCacheFresh_def noConsoleActor_def)
  then have "evaluateJS_checkActor S code retryCount now s = evaluateJS_send S code retryCount s"
    using assms(1,2) by (simp add: evaluateJS_checkActor_def noConsoleActor_def)
  then show ?thesis using s2 evaluateJS_send_connected [OF assms(1,2) s2] by simp
qed

lemma checkActor_stale:
  assumes "ACTOR_CACHE_TTL_MS \<le> now - consoleActorCachedAt s"
  shows "evaluateJS_checkActor S code retryCount now s =
     Await_ensureConsoleActor (invalidateActorCache s)"
proof -
  have "\<not> isActorCacheFresh now s" using assms by (simp add: isActorCacheFresh_def)
  then show ?thesis
    by (simp add: evaluateJS_checkActor_def noConsoleActor_def invalidateActorCache_def)
qed

text \<open>
  Claim C7. The time to live is 30000 ms. Let a call of \<open>evaluateJS\<close> have cached a console
  actor at time \<open>t0\<close>: after \<open>ensureConsoleActor()\<close> returned at \<open>t0\<close>, the call went on and
  wrote its request, leaving the state \<open>s1\<close>. Then \<open>s1\<close> holds a console actor, a non-empty
  actor id, and \<open>t0\<close> as the time of caching. Let \<open>evaluateJS\<close> be called later in a state \<open>s\<close>
  that still holds this actor and this time, on a live connection, and let \<open>now\<close> be the
  time at which the call checks the cache. The call reaches this check at once, unless a
  health check is due (then it awaits \<open>checkHealth()\<close> first and reaches the check when
  that has returned true). At the check, when \<open>now - t0 < 30000\<close>, the evaluation request
  is sent to the cached actor from the unchanged state, and discovery is not run; when
  \<open>now - t0 \<ge> 30000\<close>, the cache is cleared (no console actor, time of caching zero) and
  the next thing awaited is \<open>ensureConsoleActor()\<close>, the discovery, before anything has been
  written.
\<close>

theorem actor_cache_ttl:
  assumes "evaluateJS_afterEnsure S code0 retryCount0 t0 s0 = Await_response s1"
    and "consoleActor (state s) = consoleActor (state s1)"
    and "consoleActorCachedAt s = consoleActorCachedAt s1"
    and "socket s = Some sock" and "connected' (state s)"
    and "\<not> destroyed sock" and "writable sock"
  shows "ACTOR_CACHE_TTL_MS = 30000 \<and> consoleActorCachedAt s1 = t0 \<and>
    (\<exists>actor. consoleActor (state s1) = Some actor \<and> actor \<noteq> [] \<and>
       (shouldCheckHealth nowHealth s \<and> retryCount = 0 \<longrightarrow>
          evaluateJS S code retryCount nowHealth now s = Await_checkHealth s) \<and>
       (now - t0 < ACTOR_CACHE_TTL_MS \<longrightarrow>
          (\<exists>s2. sendMessage S (evaluateRequest actor code) s = Returns s2 \<and>
             (\<not> (shouldCheckHealth nowHealth s \<and> retryCount = 0) \<longrightarrow>
                evaluateJS S code retryCount nowHealth now s = Await_response s2) \<and>
             evaluateJS_afterHealth S code retryCount True now s = Await_response s2)) \<and>
       (now - t0 \<ge> ACTOR_CACHE_TTL_MS \<longrightarrow>
          (\<not> (shouldCheckHealth nowHealth s \<and> retryCount = 0) \<longrightarrow>
             evaluateJS S code retryCount nowHealth now s =
               Await_ensureConsoleActor (invalidateActorCache s)) \<and>
          evaluateJS_afterHealth S code retryCount True now s =
            Await_ensureConsoleActor (invalidateActorCache s) \<and>
          consoleActor (state (invalidateActorCache s)) = None \<and>
          consoleActorCachedAt (invalidateActorCache s) = 0 \<and>
          trace (invalidateActorCache s) = trace s))"
proof -
  obtain actor where a: "consoleActor (state s1) = Some actor" "actor \<noteq> []"
    and t: "consoleActorCachedAt s1 = t0"
    using evaluateJS_afterEnsure_caches [OF assms(1)] by blast
  have c: "consoleActor (state s) = Some actor" using a(1) assms(2) by simp
  have t': "consoleActorCachedAt s = t0" using t assms(3) by simp
  note live = evaluateJS_live [OF assms(4-7), of S code retryCount nowHealth now]
  have fresh: "\<exists>s2. sendMessage S (evaluateRequest actor code) s = Returns s2 \<and>
      (\<not> (shouldCheckHealth nowHealth s \<and> retryCount = 0) \<longrightarrow>
         evaluateJS S code retryCount nowHealth now s = Await_response s2) \<and>
      evaluateJS_afterHealth S code retryCount True now s = Await_response s2"
    if "now - t0 < ACTOR_CACHE_TTL_MS"
  proof -
    have f: "now - consoleActorCachedAt s < ACTOR_CACHE_TTL_MS" using that t' by simp
    obtain s2 where s2: "sendMessage S (evaluateRequest actor code) s = Returns s2"
      "evaluateJS_checkActor S code retryCount now s = Await_response s2"
      using checkActor_fresh [OF c a(2) assms(4,5) f, of S code retryCount] by blast
    show ?thesis using s2 live by (auto simp: evaluateJS_afterHealth_healthy)
  qed
  have stale: "(\<not> (shouldCheckHealth nowHealth s \<and> retryCount = 0) \<longrightarrow>
         evaluateJS S code retryCount nowHealth now s =
           Await_ensureConsoleActor (invalidateActorCache s)) \<and>
      evaluateJS_afterHealth S code retryCount True now s =
        Await_ensureConsoleActor (invalidateActorCache s)"
    if "now - t0 \<ge> ACTOR_CACHE_TTL_MS"
  proof -
    have f: "ACTOR_CACHE_TTL_MS \<le> now - consoleActorCachedAt s" using that t' by simp
    show ?thesis
      using checkActor_stale [OF f, of S code retryCount] live
      by (auto simp: evaluateJS_afterHealth_healthy)
  qed
  have due: "shouldCheckHealth nowHealth s \<and> retryCount = 0 \<longrightarrow>
      evaluateJS S code retryCount nowHealth now s = Await_checkHealth s"
  proof
    assume d: "shouldCheckHealth nowHealth s \<and> retryCount = 0"
    show "evaluateJS S code retryCount nowHealth now s = Await_checkHealth s"
      unfolding live using d by simp
  qed
  have cleared: "consoleActor (state (invalidateActorCache s)) = None"
    "consoleActorCachedAt (invalidateActorCache s) = 0"
    "trace (invalidateActorCache s) = trace s"
    by (simp_all add: invalidateActorCache_def)
  have ttl: "ACTOR_CACHE_TTL_MS = 30000" by (simp add: ACTOR_CACHE_TTL_MS_def)
  show ?thesis
    using a t due fresh stale cleared ttl by blast
qed

text \<open>
  On \<open>discoveredClient\<close> the actor is cached at time 1000. A call that checks the cache at
  30999, 5999 ms after the last success, reuses the actor; one at 31000 runs discovery.
\<close>

theorem actor_cache_ttl_witness:
  "\<exists>s1. evaluateJS_afterEnsure stringifyPlain (ascii ''1+1'') 0 1000 discoveredClient =
          Await_response s1 \<and>
        consoleActorCachedAt s1 = 1000 \<and>
        consoleActor (state s1) = Some (ascii ''conn0.console1'') \<and>
        (\<exists>s2. sendMessage stringifyPlain
                (evaluateRequest (ascii ''conn0.console1'') (ascii ''2+2''))
                (s1\<lparr>lastSuccessfulOperation := 25000\<rparr>) = Returns s2 \<and>
              evaluateJS stringifyPlain (ascii ''2+2'') 0 30999 30999
                (s1\<lparr>lastSuccessfulOperation := 25000\<rparr>) = Await_response s2) \<and>
        evaluateJS stringifyPlain (ascii ''2+2'') 0 31000 31000
            (s1\<lparr>lastSuccessfulOperation := 25000\<rparr>) =
          Await_ensureConsoleActor (invalidateActorCache (s1\<lparr>lastSuccessfulOperation := 25000\<rparr>))"
proof -
  have d: "consoleActor (state discoveredClient) = Some (ascii ''conn0.console1'')"
    "socket discoveredClient = Some openSocket" "connected' (state discoveredClient)"
    by (simp_all add: discoveredClient_def connectedClient_def)
  have n: "ascii ''conn0.console1'' \<noteq> []" by simp
  obtain s1 where
    m: "sendMessage stringifyPlain (evaluateRequest (ascii ''conn0.console1'') (ascii ''1+1''))
          (discoveredClient\<lparr>consoleActorCachedAt := 1000\<rparr>) = Returns s1"
    and e: "evaluateJS_afterEnsure stringifyPlain (ascii ''1+1'') 0 1000 discoveredClient =
          Await_response s1"
    using evaluateJS_afterEnsure_sends [OF d(1) n d(2,3), of stringifyPlain "ascii ''1+1''" 1000 0]
    by blast
  let ?s = "s1\<lparr>lastSuccessfulOperation := 25000\<rparr>"
  have k: "state s1 = state discoveredClient" "socket s1 = Some openSocket"
    using sendMessage_keeps [OF m] d(2) by simp_all
  have h: "consoleActor (state ?s) = consoleActor (state s1)"
    "consoleActorCachedAt ?s = consoleActorCachedAt s1"
    "socket ?s = Some openSocket" "connected' (state ?s)"
    "\<not> destroyed openSocket" "writable openSocket"
    using k d(3) by (simp_all add: openSocket_def)
  have nh: "\<not> (shouldCheckHealth 30999 ?s \<and> (0::nat) = 0)"
    "\<not> (shouldCheckHealth 31000 ?s \<and> (0::nat) = 0)"
    by (simp_all add: shouldCheckHealth_def HEALTH_CHECK_THRESHOLD_MS_def)
  note fresh = actor_cache_ttl [OF e h, where nowHealth = 30999 and retryCount = 0
      and code = "ascii ''2+2''" and now = 30999]
  note stale = actor_cache_ttl [OF e h, where nowHealth = 31000 and retryCount = 0
      and code = "ascii ''2+2''" and now = 31000]
  have t: "consoleActorCachedAt s1 = 1000" using fresh by blast
  have a: "consoleActor (state s1) = Some (ascii ''conn0.console1'')" using k(1) d(1) by simp
  have f: "\<exists>s2. sendMessage stringifyPlain
                (evaluateRequest (ascii ''conn0.console1'') (ascii ''2+2'')) ?s = Returns s2 \<and>
              evaluateJS stringifyPlain (ascii ''2+2'') 0 30999 30999 ?s = Await_response s2"
    using fresh nh(1) a by (auto simp: ACTOR_CACHE_TTL_MS_def)
  have g: "evaluateJS stringifyPlain (ascii ''2+2'') 0 31000 31000 ?s =
      Await_ensureConsoleActor (invalidateActorCache ?s)"
    using stale nh(2) by (auto simp: ACTOR_CACHE_TTL_MS_def)
  show ?thesis using e t a f g by blast
qed

section \<open>Long strings\<close>

lemma isLongString_longStringGrip: "isLongString (longStringGrip actor len initial)"
  by (simp add: isLongString_def longStringGrip_def hasKey_def getProp_def)

lemma longStringGrip_actor:
  "getProp (longStringGrip actor len initial) (ascii ''actor'') = JString actor"
  by (simp add: longStringGrip_def getProp_def)

lemma longStringGrip_length:
  "getProp (longStringGrip actor len initial) (ascii ''length'') = JNumber len"
  by (simp add: longStringGrip_def getProp_def)

text \<open>
  A non-empty initial chunk that is at least as long as the declared length is returned as
  it is, by both decoders and without a request.
\<close>

lemma gripToValue_covering_initial:
  assumes "initial \<noteq> []" and "real (length initial) \<ge> len"
  shows "gripToValue (GripLongString actor len initial) = JString initial"
    and "gripToValueAsync send (GripLongString actor len initial) = Inr (JString initial)"
  using assms by (simp_all add: gripToValueAsync_def isLongString_def)

text \<open>
  An initial chunk shorter than the declared length: \<open>gripToValue\<close> returns the grip, and
  \<open>gripToValueAsync\<close> sends one \<open>substring\<close> request from 0 to the declared length to the
  grip's own actor and returns what the response holds as \<open>substring\<close>.
\<close>

lemma gripToValue_short_initial:
  assumes "real (length initial) < len"
  shows "gripToValue (GripLongString actor len initial) = longStringGrip actor len initial"
    and "gripToValueAsync send (GripLongString actor len initial) =
        (case send (substringRequest actor len) of
           Inl e \<Rightarrow> Inl e
         | Inr response \<Rightarrow> Inr (getProp response (ascii ''substring'')))"
proof -
  show g: "gripToValue (GripLongString actor len initial) = longStringGrip actor len initial"
    using assms by simp
  show "gripToValueAsync send (GripLongString actor len initial) =
        (case send (substringRequest actor len) of
           Inl e \<Rightarrow> Inl e
         | Inr response \<Rightarrow> Inr (getProp response (ascii ''substring'')))"
    by (simp add: gripToValueAsync_def g isLongString_longStringGrip longStringGrip_actor
        longStringGrip_length fetchLongString_def substringRequest_def del: gripToValue.simps)
qed

text \<open>The example of the spec: initial chunk \<open>ab\<close>, length 5, the actor answers \<open>abcde\<close>.\<close>

lemma longString_example:
  "gripToValue (GripLongString (ascii ''s1'') 5 (ascii ''abcde'')) = JString (ascii ''abcde'')"
  "gripToValue (GripLongString (ascii ''s1'') 5 (ascii ''ab'')) =
     longStringGrip (ascii ''s1'') 5 (ascii ''ab'')"
  "gripToValueAsync stubSend (GripLongString (ascii ''s1'') 5 (ascii ''ab'')) =
     Inr (JString (ascii ''abcde''))"
proof -
  show "gripToValue (GripLongString (ascii ''s1'') 5 (ascii ''abcde'')) = JString (ascii ''abcde'')"
    by simp
  show "gripToValue (GripLongString (ascii ''s1'') 5 (ascii ''ab'')) =
     longStringGrip (ascii ''s1'') 5 (ascii ''ab'')"
    by simp
  show "gripToValueAsync stubSend (GripLongString (ascii ''s1'') 5 (ascii ''ab'')) =
     Inr (JString (ascii ''abcde''))"
    using gripToValue_short_initial(2) [of "ascii ''ab''" 5 stubSend "ascii ''s1''"]
    by (simp add: stubSend_def getProp_def del: gripToValue.simps)
qed

text \<open>
  Claim C8 does not hold of the code. Take the long-string grip with the empty initial
  chunk and the declared length 0: the chunk covers the declared length, and the comment
  in \<open>gripToValue\<close> says "If initial contains all content, return it". But the test there is
  \<open>longStr.initial && longStr.initial.length >= longStr.length\<close>, the empty string is false,
  and \<open>gripToValue\<close> returns the grip and not the string.
\<close>

theorem gripToValue_empty_initial:
  "real (length ([] :: jsstring)) \<ge> 0 \<and>
   gripToValue (GripLongString (ascii ''s1'') 0 []) = longStringGrip (ascii ''s1'') 0 [] \<and>
   gripToValue (GripLongString (ascii ''s1'') 0 []) \<noteq> JString []"
  by (simp add: longStringGrip_def)

section \<open>The length prefix of an outbound packet\<close>

lemma toString_1: "toString (Suc 0) = ascii ''1''"
  by (simp add: toString.simps ascii_def digitChar_def)

lemma toString_83: "toString 83 = ascii ''83''"
  by (simp add: toString.simps ascii_def digitChar_def)

lemma length_requestText: "length requestText = 83"
  by (simp add: requestText_def)

lemma packet_requestText: "packet requestText = ascii ''83:'' @ requestText"
  by (simp add: packet_def length_requestText toString_83 ascii_def)

lemma utf8_requestText:
  \<open>utf8_encode requestText =
     bytes ''{"to":"conn0.console1","type":"evaluateJSAsync","text":"'' @ [0xC3, 0xA9] @
     bytes ''","mapped":{"await":true}}''\<close>
  by (simp add: requestText_def ascii_def bytes_def utf8_bmp_def isHighSurrogate_def
      isLowSurrogate_def)

lemma utf8_packet_requestText:
  "utf8_encode (packet requestText) = bytes ''83:'' @ utf8_encode requestText"
  unfolding packet_requestText
  by (simp add: requestText_def ascii_def bytes_def utf8_bmp_def isHighSurrogate_def
      isLowSurrogate_def)

text \<open>
  For a payload of ASCII characters the prefix is the number of bytes of the payload: every
  character is one byte.
\<close>

lemma not_surrogate_ascii: "c < 0x80 \<Longrightarrow> \<not> isHighSurrogate c \<and> \<not> isLowSurrogate c"
  for c :: jschar
  by (auto simp: isHighSurrogate_def isLowSurrogate_def word_le_nat_alt word_less_nat_alt)

lemma utf8_encode_ascii_append:
  "list_all (\<lambda>c. c < 0x80) xs \<Longrightarrow> utf8_encode (xs @ ys) = map ucast xs @ utf8_encode ys"
proof (induction xs)
  case Nil
  then show ?case by simp
next
  case (Cons c cs)
  then have c: "c < 0x80" and cs: "list_all (\<lambda>c. c < 0x80) cs" by simp_all
  have "utf8_encode (c # (cs @ ys)) = ucast c # utf8_encode (cs @ ys)"
    using c not_surrogate_ascii [OF c] by (cases "cs @ ys") (simp_all add: utf8_bmp_def)
  then show ?case using Cons.IH [OF cs] by simp
qed

lemma digit_is_ascii: "isDigit c \<Longrightarrow> c < 0x80"
  by (simp add: isDigit_def word_le_nat_alt word_less_nat_alt)

lemma ascii_payload_prefix_is_byte_length:
  assumes "list_all (\<lambda>c. c < 0x80) json"
  shows "length (utf8_encode json) = length json \<and>
     utf8_encode (packet json) =
       map ucast (toString (length (utf8_encode json))) @ [0x3A] @ utf8_encode json"
proof -
  have j: "utf8_encode json = map ucast json"
    using utf8_encode_ascii_append [OF assms, of "[]"] by simp
  have t: "list_all (\<lambda>c. c < 0x80) (toString (length json) @ [0x3A])"
    using toString_digits [of "length json"] digit_is_ascii by (auto simp: list_all_iff)
  have "utf8_encode (packet json) = map ucast (toString (length json) @ [0x3A]) @ utf8_encode json"
    using utf8_encode_ascii_append [OF t, of json] by (simp add: packet_def ascii_def)
  then show ?thesis using j by simp
qed

text \<open>
  Claim C1 does not hold of the code. The prefix \<open>sendMessage\<close> writes is \<open>json.length\<close>, the
  number of UTF-16 code units of the payload, and the socket writes the packet in UTF-8. On
  the request of \<open>evaluateJS\<close> for the one-character code U+00E9 the payload has 83 code units
  and 84 bytes, and the packet written starts with \<open>83:\<close>.
\<close>

theorem sendMessage_length_prefix:
  \<open>sendMessage (\<lambda>m. requestText) (evaluateRequest (ascii ''conn0.console1'') [0xE9])
       connectedClient =
     Returns (connectedClient\<lparr>messageIdCounter := 1,
        pendingRequests := [(ascii ''msg-1'', \<lparr>promise = 1\<rparr>)],
        trace := [SetTimeout \<lparr>promise = 1\<rparr> 30000,
                  SocketWrite (bytes ''83:'' @ utf8_encode requestText)]\<rparr>) \<and>
   length (utf8_encode requestText) = 84\<close>
proof -
  have "length (utf8_encode requestText) = 84"
    by (simp add: utf8_requestText bytes_def)
  moreover have
    "sendMessage (\<lambda>m. requestText) (evaluateRequest (ascii ''conn0.console1'') [0xE9])
       connectedClient =
     Returns (connectedClient\<lparr>messageIdCounter := 1,
        pendingRequests := [(ascii ''msg-1'', \<lparr>promise = 1\<rparr>)],
        trace := [SetTimeout \<lparr>promise = 1\<rparr> 30000,
                  SocketWrite (utf8_encode (packet requestText))]\<rparr>)"
    by (simp add: sendMessage_def connectedClient_def newClient_def Let_def perform_def
        DEFAULT_OPTIONS_def toString_1 ascii_def increment_def)
  ultimately show ?thesis by (simp only: utf8_packet_requestText simp_thms)
qed

section \<open>Prefixes that are no length\<close>

text \<open>
  What the loop does on a prefix that is no number at all: it drops the first character
  and goes on.
\<close>

lemma processBuffer_skips_one:
  assumes "indexOf (buffer s) 0x3A = Some colonIndex"
    and "parseInt (slice (buffer s) 0 (int colonIndex)) = None"
  shows "processBuffer P s = processBuffer P (s\<lparr>buffer := tl (buffer s)\<rparr>)"
proof -
  have "slice_from (buffer s) 1 = tl (buffer s)"
    by (cases "buffer s") (simp_all add: slice_from_def slice_def)
  then show ?thesis
    by (subst processBuffer.simps) (simp add: assms)
qed

text \<open>A stray character before a packet is dropped, and the packet is read.\<close>

lemma resync_example:
  \<open>deliver parsePlain [ascii ''x15:{"from":"root"}''] connectedClient =
     Some (handleMessage plainResponse connectedClient)\<close>
proof -
  let ?s = \<open>connectedClient\<lparr>buffer := ascii ''x15:{"from":"root"}''\<rparr>\<close>
  have i: "indexOf (buffer ?s) 0x3A = Some 3" by (simp add: ascii_def)
  have p: "parseInt (slice (buffer ?s) 0 (int 3)) = None"
    by (simp add: ascii_def slice_def parseInt_def isWhiteSpace_def isDigit_def)
  have t: "tl (buffer ?s) = packet plainText"
    by (simp add: packet_plainText) (simp add: ascii_def)
  have e: "buffer connectedClient = []" by (simp add: connectedClient_def newClient_def)
  have "processBuffer parsePlain ?s =
      processBuffer parsePlain (?s\<lparr>buffer := packet plainText\<rparr>)"
    using processBuffer_skips_one [OF i p, of parsePlain] by (simp only: t)
  also have "\<dots> = Some (dispatch parsePlain plainText (connectedClient\<lparr>buffer := []\<rparr>))"
    using processBuffer_complete [of "?s\<lparr>buffer := packet plainText\<rparr>" plainText parsePlain]
    by simp
  also have "connectedClient\<lparr>buffer := []\<rparr> = connectedClient" using e by simp
  finally have pb: "processBuffer parsePlain ?s =
      Some (dispatch parsePlain plainText connectedClient)" .
  obtain s1 where s1: "handleMessage plainResponse connectedClient = Returns s1"
    using handleMessage_object [of plainResponse connectedClient] by (auto simp: plainResponse_def)
  have "dispatch parsePlain plainText connectedClient = Returns s1"
    by (simp add: dispatch_def parsePlain_def s1)
  then show ?thesis using pb s1 e by (simp add: handleData_def)
qed

lemma dispatch_with_listener:
  assumes "errorListener s"
  shows "\<exists>s2. dispatch P str s = Returns s2 \<and> buffer s2 = buffer s \<and> errorListener s2"
proof (cases "P str")
  case None
  then show ?thesis using assms by (simp add: dispatch_def emit_error_def perform_def)
next
  case (Some m)
  show ?thesis
  proof (cases "handleMessage m s")
    case (Returns s1)
    then show ?thesis using Some assms handleMessage_Returns [OF Returns]
      by (simp add: dispatch_def)
  next
    case (Throws e s1)
    then have "s1 = s" by (rule handleMessage_Throws)
    then show ?thesis using Some Throws assms
      by (simp add: dispatch_def emit_error_def perform_def)
  qed
qed

lemma stalled_prefix:
  "indexOf (ascii ''-3:'') 0x3A = Some 2"
  "parseInt (slice (ascii ''-3:'') 0 2) = Some (- 3)"
  "slice (ascii ''-3:'') 3 0 = []"
  "slice_from (ascii ''-3:'') 0 = ascii ''-3:''"
  by (simp_all add: ascii_def slice_def slice_from_def parseInt_def isWhiteSpace_def isDigit_def
      digitsValue_def)

lemma processBuffer_stalls:
  assumes "processBuffer P s = Some y"
  shows "\<not> (buffer s = ascii ''-3:'' \<and> errorListener s)"
proof (rule processBuffer.raw_induct
    [where P = "\<lambda>P s y. \<not> (buffer s = ascii ''-3:'' \<and> errorListener s)", OF _ assms],
    goal_cases)
  case (1 f P s y)
  show ?case
  proof
    assume a: "buffer s = ascii ''-3:'' \<and> errorListener s"
    obtain s2 where s2: "dispatch P [] s = Returns s2" "buffer s2 = buffer s" "errorListener s2"
      using dispatch_with_listener [of s P "[]"] a by blast
    have same: "s\<lparr>buffer := ascii ''-3:''\<rparr> = s" using a by simp
    have "f P s2 = Some y"
      using 1(2) a s2(1) by (simp add: stalled_prefix same)
    then show False using 1(1) s2 a by simp
  qed
qed

text \<open>
  Without a listener for "error" the loop is left by an exception on the same buffer, which
  stays as it is: every later call of \<open>handleData\<close> meets the same prefix again.
\<close>

lemma processBuffer_negative_length_throws:
  assumes "P [] = None"
  shows "processBuffer P (s\<lparr>buffer := ascii ''-3:'', errorListener := False\<rparr>) =
     Some (Throws (parseFailure []) (s\<lparr>buffer := ascii ''-3:'', errorListener := False\<rparr>))"
  by (subst processBuffer.simps)
     (simp add: stalled_prefix dispatch_def assms emit_error_def)

text \<open>
  Claim C2 does not hold of the code. \<open>parseInt\<close> reads \<open>-3\<close> as the number -3, which is not
  \<open>NaN\<close>, so no character is dropped; \<open>messageEnd\<close> is 0, the message sliced out is empty,
  and \<open>this.buffer.slice(0)\<close> is the whole buffer again. With a listener for "error" the
  loop of \<open>processBuffer\<close> repeats on the unchanged buffer for ever, whatever \<open>JSON.parse\<close>
  makes of the empty text (it fails on it, and the failure is emitted each time): the call
  does not return.
\<close>

theorem processBuffer_negative_length_diverges:
  "processBuffer P (s\<lparr>buffer := ascii ''-3:'', errorListener := True\<rparr>) = None"
proof (cases "processBuffer P (s\<lparr>buffer := ascii ''-3:'', errorListener := True\<rparr>)")
  case None
  then show ?thesis .
next
  case (Some y)
  then show ?thesis using processBuffer_stalls [OF Some] by simp
qed

section \<open>First in, first out\<close>

lemma handleMessage_response:
  assumes "isResponse m" and "pendingRequests s = (k, p) # rest"
  shows "handleMessage m s =
     Returns (s\<lparr>pendingRequests := Map_delete k ((k, p) # rest),
                trace := trace s @ [ClearTimeout p, settle p m]\<rparr>)"
  using assms by (simp add: handleMessage_def isResponse_def Let_def perform_def)

text \<open>
  On a frame that carries \<open>from\<close>, as every response of the protocol does (\<open>RDPResponse\<close>), the
  test of \<open>handleMessage\<close> accepts the acknowledgments and nothing else.
\<close>

lemma isAcknowledgment_with_from:
  assumes "hasKey (ascii ''from'') message"
  shows "isAcknowledgment message \<longleftrightarrow> acknowledgmentFrame message"
proof
  assume a: "isAcknowledgment message"
  let ?ks = "Object_keys message"
  have d: "distinct ?ks" by (simp add: Object_keys_def)
  have r: "ascii ''resultID'' \<in> set ?ks" "ascii ''from'' \<in> set ?ks"
    using a assms by (simp_all add: isAcknowledgment_def hasKey_def Object_keys_def)
  have "card (set ?ks) \<le> 2" using a d by (simp add: isAcknowledgment_def distinct_card)
  moreover have "{ascii ''resultID'', ascii ''from''} \<subseteq> set ?ks" using r by simp
  moreover have "card {ascii ''resultID'', ascii ''from''} = 2" by simp
  ultimately have "set ?ks = {ascii ''resultID'', ascii ''from''}"
    by (metis List.finite_set card_seteq)
  then show "acknowledgmentFrame message"
    using a by (simp add: acknowledgmentFrame_def isAcknowledgment_def)
next
  assume a: "acknowledgmentFrame message"
  have "length (Object_keys message) \<le> 2"
    using a by (intro length_Object_keys [of _ "ascii ''resultID''" "ascii ''from''"])
      (simp add: acknowledgmentFrame_def)
  then show "isAcknowledgment message"
    using a by (simp add: acknowledgmentFrame_def isAcknowledgment_def)
qed

lemma responseFrame_isResponse:
  assumes "responseFrame m"
  shows "isResponse m"
  using assms isAcknowledgment_with_from [of m] by (simp add: responseFrame_def isResponse_def)

lemma three_sent:
  "sendMessages stringifyPlain
     [rootRequest ''getRoot'', rootRequest ''listProcesses'', rootRequest ''listTabs'']
     connectedClient = Returns threeSent"
proof -
  have t: "toString (Suc 0) = ascii ''1''" "toString (Suc (Suc 0)) = ascii ''2''"
    "toString (Suc (Suc (Suc 0))) = ascii ''3''"
    by (simp_all add: toString.simps ascii_def digitChar_def)
  show ?thesis
    by (simp add: sendMessage_def threeSent_def connectedClient_def newClient_def Let_def
        perform_def DEFAULT_OPTIONS_def increment_def stringifyPlain_def t)
       (simp add: ascii_def)
qed

text \<open>
  Claim C3, as stated, fails. Three requests are sent, and three frames arrive that are
  neither events nor acknowledgments. The first, \<open>errorFrame\<close>, has a \<open>resultID\<close> and an
  \<open>error\<close>, a field besides \<open>resultID\<close> and \<open>from\<close>, so it is no acknowledgment; but it has
  no \<open>from\<close>, hence two fields in all, and no \<open>type\<close> and no \<open>result\<close>, and the test of
  \<open>handleMessage\<close> (at most two fields) drops it. So the first request is resolved with the
  second frame, the second with the third, and the third request is still pending.
\<close>

theorem fifo_correlation_counterexample:
  "isObject errorFrame \<and> eventType errorFrame = None \<and> \<not> acknowledgmentFrame errorFrame \<and>
   \<not> hasKey (ascii ''from'') errorFrame \<and>
   responseFrame plainResponse \<and> responseFrame resultResponse \<and>
   sendMessages stringifyPlain
     [rootRequest ''getRoot'', rootRequest ''listProcesses'', rootRequest ''listTabs'']
     connectedClient = Returns threeSent \<and>
   handleMessages [errorFrame, plainResponse, resultResponse] threeSent =
     Returns (threeSent\<lparr>pendingRequests := [(ascii ''msg-3'', \<lparr>promise = 3\<rparr>)],
        trace := trace threeSent @
          [ClearTimeout \<lparr>promise = 1\<rparr>, Resolve \<lparr>promise = 1\<rparr> plainResponse,
           ClearTimeout \<lparr>promise = 2\<rparr>, Resolve \<lparr>promise = 2\<rparr> resultResponse]\<rparr>)"
proof -
  have f: "isObject errorFrame" "eventType errorFrame = None" "\<not> acknowledgmentFrame errorFrame"
    "\<not> hasKey (ascii ''from'') errorFrame"
    "responseFrame plainResponse" "responseFrame resultResponse"
    by (simp_all add: errorFrame_def plainResponse_def resultResponse_def eventType_def
        getProp_def acknowledgmentFrame_def responseFrame_def hasKey_def Object_keys_def)
  have d: "handleMessage errorFrame threeSent = Returns threeSent"
    by (simp add: handleMessage_def errorFrame_def eventType_def getProp_def
        isAcknowledgment_def hasKey_def Object_keys_def)
  have r: "isResponse plainResponse" "isResponse resultResponse"
    using f by (simp_all add: responseFrame_isResponse)
  have s: "settle p plainResponse = Resolve p plainResponse"
    "settle p resultResponse = Resolve p resultResponse" for p
    by (simp_all add: settle_def plainResponse_def resultResponse_def hasKey_def)
  let ?t1 = "threeSent\<lparr>pendingRequests := [(ascii ''msg-2'', \<lparr>promise = 2\<rparr>),
        (ascii ''msg-3'', \<lparr>promise = 3\<rparr>)],
      trace := trace threeSent @ [ClearTimeout \<lparr>promise = 1\<rparr>,
        Resolve \<lparr>promise = 1\<rparr> plainResponse]\<rparr>"
  have h1: "handleMessage plainResponse threeSent = Returns ?t1"
    using handleMessage_response [OF r(1), of threeSent "ascii ''msg-1''" "\<lparr>promise = 1\<rparr>"
        "[(ascii ''msg-2'', \<lparr>promise = 2\<rparr>), (ascii ''msg-3'', \<lparr>promise = 3\<rparr>)]"]
    by (simp add: threeSent_def Map_delete_def s)
  have h2: "handleMessage resultResponse ?t1 =
      Returns (threeSent\<lparr>pendingRequests := [(ascii ''msg-3'', \<lparr>promise = 3\<rparr>)],
        trace := trace threeSent @
          [ClearTimeout \<lparr>promise = 1\<rparr>, Resolve \<lparr>promise = 1\<rparr> plainResponse,
           ClearTimeout \<lparr>promise = 2\<rparr>, Resolve \<lparr>promise = 2\<rparr> resultResponse]\<rparr>)"
    using handleMessage_response [OF r(2), of ?t1 "ascii ''msg-2''" "\<lparr>promise = 2\<rparr>"
        "[(ascii ''msg-3'', \<lparr>promise = 3\<rparr>)]"]
    by (simp add: Map_delete_def s)
  have "handleMessages [errorFrame, plainResponse, resultResponse] threeSent =
      Returns (threeSent\<lparr>pendingRequests := [(ascii ''msg-3'', \<lparr>promise = 3\<rparr>)],
        trace := trace threeSent @
          [ClearTimeout \<lparr>promise = 1\<rparr>, Resolve \<lparr>promise = 1\<rparr> plainResponse,
           ClearTimeout \<lparr>promise = 2\<rparr>, Resolve \<lparr>promise = 2\<rparr> resultResponse]\<rparr>)"
    by (simp only: handleMessages.simps d h1 h2 completion.case)
  then show ?thesis using f three_sent by simp
qed

text \<open>
  Claim C3, amended. On a connected client with nothing pending, whose message counter has
  room for three more ids up to \<open>2^53\<close>, let three requests be sent one after the other, and
  let then three frames arrive, each an object that carries \<open>from\<close>, as the type
  \<open>RDPResponse\<close> of a frame requires, and that is neither a recognized event nor an
  acknowledgment. The three sends return and leave the three requests in the queue in the
  order of sending. The first frame settles the first request, the second the second, the
  third the third, in this order and with nothing in between, whatever else the frames
  hold: each time the timer of the request is cleared and its promise is resolved with the
  frame, or rejected when the frame has an \<open>error\<close> field. Afterwards nothing is pending.
  (No timer fires and no write fails in between.)
\<close>

theorem fifo_correlation:
  assumes "socket s = Some sock" and "connected' (state s)" and "pendingRequests s = []"
    and "messageIdCounter s + 2 < 2 ^ 53"
    and "responseFrame m1" and "responseFrame m2" and "responseFrame m3"
  shows "\<exists>s3 t. sendMessages S [r1, r2, r3] s = Returns s3 \<and>
      map snd (pendingRequests s3) =
        [\<lparr>promise = messageIdCounter s + 1\<rparr>, \<lparr>promise = messageIdCounter s + 2\<rparr>,
         \<lparr>promise = messageIdCounter s + 3\<rparr>] \<and>
      handleMessages [m1, m2, m3] s3 = Returns t \<and>
      trace t = trace s3 @
        [ClearTimeout \<lparr>promise = messageIdCounter s + 1\<rparr>,
         settle \<lparr>promise = messageIdCounter s + 1\<rparr> m1,
         ClearTimeout \<lparr>promise = messageIdCounter s + 2\<rparr>,
         settle \<lparr>promise = messageIdCounter s + 2\<rparr> m2,
         ClearTimeout \<lparr>promise = messageIdCounter s + 3\<rparr>,
         settle \<lparr>promise = messageIdCounter s + 3\<rparr> m3] \<and>
      pendingRequests t = []"
proof -
  let ?c = "messageIdCounter s"
  have m: "isResponse m1" "isResponse m2" "isResponse m3"
    using assms(5-7) by (simp_all add: responseFrame_isResponse)
  let ?k = "\<lambda>i. ascii ''msg-'' @ toString (?c + i)"
  let ?p = "\<lambda>i. \<lparr>promise = ?c + i\<rparr>"
  have i: "increment ?c = ?c + 1" "increment (?c + 1) = ?c + 2" "increment (?c + 2) = ?c + 3"
    using assms(4) by (simp_all add: increment_def)
  have ne: "?k 1 \<noteq> ?k 2" "?k 1 \<noteq> ?k 3" "?k 2 \<noteq> ?k 3"
    by simp_all
  define s1 where "s1 = s\<lparr>messageIdCounter := ?c + 1, pendingRequests := [(?k 1, ?p 1)],
     trace := trace s @ [SetTimeout (?p 1) (timeout (options s)),
                         SocketWrite (utf8_encode (packet (S r1)))]\<rparr>"
  define s2 where "s2 = s1\<lparr>messageIdCounter := ?c + 2,
     pendingRequests := [(?k 1, ?p 1), (?k 2, ?p 2)],
     trace := trace s1 @ [SetTimeout (?p 2) (timeout (options s)),
                          SocketWrite (utf8_encode (packet (S r2)))]\<rparr>"
  define s3 where "s3 = s2\<lparr>messageIdCounter := ?c + 3,
     pendingRequests := [(?k 1, ?p 1), (?k 2, ?p 2), (?k 3, ?p 3)],
     trace := trace s2 @ [SetTimeout (?p 3) (timeout (options s)),
                          SocketWrite (utf8_encode (packet (S r3)))]\<rparr>"
  have a1: "sendMessage S r1 s = Returns s1"
    using sendMessage_Returns [OF assms(1,2), of S r1] assms(3) by (simp add: s1_def i)
  have c1': "messageIdCounter s1 = ?c + 1" "messageIdCounter s2 = ?c + 2"
    by (simp_all add: s1_def s2_def)
  have a2: "sendMessage S r2 s1 = Returns s2"
    using sendMessage_Returns [of s1 sock S r2] assms(1,2) ne
    by (simp only: c1' i) (simp add: s1_def s2_def)
  have a3: "sendMessage S r3 s2 = Returns s3"
    using sendMessage_Returns [of s2 sock S r3] assms(1,2) ne
    by (simp only: c1' i) (simp add: s1_def s2_def s3_def)
  define t1 where "t1 = s3\<lparr>pendingRequests := [(?k 2, ?p 2), (?k 3, ?p 3)],
     trace := trace s3 @ [ClearTimeout (?p 1), settle (?p 1) m1]\<rparr>"
  define t2 where "t2 = t1\<lparr>pendingRequests := [(?k 3, ?p 3)],
     trace := trace t1 @ [ClearTimeout (?p 2), settle (?p 2) m2]\<rparr>"
  define t3 where "t3 = t2\<lparr>pendingRequests := [],
     trace := trace t2 @ [ClearTimeout (?p 3), settle (?p 3) m3]\<rparr>"
  have b1: "handleMessage m1 s3 = Returns t1"
    using handleMessage_response [OF m(1), of s3 "?k 1" "?p 1" "[(?k 2, ?p 2), (?k 3, ?p 3)]"] ne
    by (simp add: s3_def t1_def Map_delete_def)
  have b2: "handleMessage m2 t1 = Returns t2"
    using handleMessage_response [OF m(2), of t1 "?k 2" "?p 2" "[(?k 3, ?p 3)]"] ne
    by (simp add: t1_def t2_def Map_delete_def)
  have b3: "handleMessage m3 t2 = Returns t3"
    using handleMessage_response [OF m(3), of t2 "?k 3" "?p 3" "[]"]
    by (simp add: t2_def t3_def Map_delete_def)
  have c1: "sendMessages S [r1, r2, r3] s = Returns s3" by (simp add: a1 a2 a3)
  have c2: "map snd (pendingRequests s3) = [?p 1, ?p 2, ?p 3]" by (simp add: s3_def)
  have c3: "handleMessages [m1, m2, m3] s3 = Returns t3" by (simp add: b1 b2 b3)
  have c4: "trace t3 = trace s3 @ [ClearTimeout (?p 1), settle (?p 1) m1,
      ClearTimeout (?p 2), settle (?p 2) m2, ClearTimeout (?p 3), settle (?p 3) m3]"
    by (simp add: t3_def t2_def t1_def)
  have c5: "pendingRequests t3 = []" by (simp add: t3_def)
  show ?thesis
    by (rule exI [of _ s3], rule exI [of _ t3]) (simp only: c1 c2 c3 c4 c5 simp_thms)
qed

lemma sample_responses:
  "responseFrame plainResponse" "responseFrame errorResponse" "responseFrame resultResponse"
  by (simp_all add: responseFrame_def plainResponse_def errorResponse_def resultResponse_def
      eventType_def getProp_def acknowledgmentFrame_def hasKey_def)

theorem fifo_correlation_witness:
  "socket connectedClient = Some openSocket \<and> connected' (state connectedClient) \<and>
   pendingRequests connectedClient = [] \<and> messageIdCounter connectedClient + 2 < 2 ^ 53 \<and>
   responseFrame plainResponse \<and> responseFrame errorResponse \<and>
   responseFrame resultResponse \<and>
   (\<exists>s3 t. sendMessages (\<lambda>m. [])
        [rootRequest ''getRoot'', rootRequest ''listProcesses'', rootRequest ''listTabs'']
        connectedClient = Returns s3 \<and>
      handleMessages [plainResponse, errorResponse, resultResponse] s3 = Returns t \<and>
      trace t = trace s3 @
        [ClearTimeout \<lparr>promise = 1\<rparr>, Resolve \<lparr>promise = 1\<rparr> plainResponse,
         ClearTimeout \<lparr>promise = 2\<rparr>,
         Reject \<lparr>promise = 2\<rparr>
           (ErrorOf (JString (ascii ''No such actor for ID: conn0.console9''))),
         ClearTimeout \<lparr>promise = 3\<rparr>, Resolve \<lparr>promise = 3\<rparr> resultResponse] \<and>
      pendingRequests t = [])"
proof -
  have a: "socket connectedClient = Some openSocket" "connected' (state connectedClient)"
    "pendingRequests connectedClient = []" "messageIdCounter connectedClient + 2 < 2 ^ 53"
    by (simp_all add: connectedClient_def newClient_def)
  have z: "messageIdCounter connectedClient = 0"
    by (simp add: connectedClient_def newClient_def)
  have s: "settle p plainResponse = Resolve p plainResponse"
    "settle p errorResponse =
       Reject p (ErrorOf (JString (ascii ''No such actor for ID: conn0.console9'')))"
    "settle p resultResponse = Resolve p resultResponse" for p
    by (simp_all add: settle_def plainResponse_def errorResponse_def resultResponse_def
        hasKey_def getProp_def)
  obtain s3 t where
    "sendMessages (\<lambda>m. [])
        [rootRequest ''getRoot'', rootRequest ''listProcesses'', rootRequest ''listTabs'']
        connectedClient = Returns s3"
    "handleMessages [plainResponse, errorResponse, resultResponse] s3 = Returns t"
    "trace t = trace s3 @
        [ClearTimeout \<lparr>promise = 1\<rparr>, Resolve \<lparr>promise = 1\<rparr> plainResponse,
         ClearTimeout \<lparr>promise = 2\<rparr>,
         Reject \<lparr>promise = 2\<rparr>
           (ErrorOf (JString (ascii ''No such actor for ID: conn0.console9''))),
         ClearTimeout \<lparr>promise = 3\<rparr>, Resolve \<lparr>promise = 3\<rparr> resultResponse]"
    "pendingRequests t = []"
    using fifo_correlation [OF a sample_responses, of "\<lambda>m. []" "rootRequest ''getRoot''"
        "rootRequest ''listProcesses''" "rootRequest ''listTabs''"]
    by (auto simp: z s)
  then show ?thesis using a sample_responses by blast
qed

section \<open>The round trip through the frame parser\<close>

text \<open>
  Claim C4. Let \<open>M\<close> be a message, an object that \<open>JSON.parse\<close> gets back from what
  \<open>JSON.stringify\<close> makes of it, and let the packet \<open>sendMessage\<close> builds for \<open>M\<close> arrive in
  any number of chunks, cut anywhere, at a client whose buffer is empty. Then the calls of
  \<open>handleData\<close> for these chunks all return, and together they do what one call
  \<open>handleMessage(M)\<close> does: the parser has produced the one message \<open>M\<close>, and the buffer is
  empty again.
\<close>

theorem framing_round_trip:
  assumes "JSON_parse (JSON_stringify M) = Some M" and "isObject M"
    and "concat chunks = packet (JSON_stringify M)" and "buffer s = []"
  shows "deliver JSON_parse chunks s = Some (handleMessage M s) \<and>
         (\<exists>s1. handleMessage M s = Returns s1 \<and> buffer s1 = [])"
proof -
  obtain s1 where s1: "handleMessage M s = Returns s1"
    using handleMessage_object [OF assms(2)] by blast
  have e: "s\<lparr>buffer := []\<rparr> = s" using assms(4) by simp
  have ne: "concat chunks \<noteq> []" using assms(3) by (simp add: packet_def ascii_def)
  have "deliver JSON_parse chunks s = Some (dispatch JSON_parse (JSON_stringify M) s)"
    using deliver_packet [of s chunks "JSON_stringify M" JSON_parse] assms(3,4) ne e by simp
  moreover have "dispatch JSON_parse (JSON_stringify M) s = Returns s1"
    using assms(1) s1 by (simp add: dispatch_def)
  moreover have "buffer s1 = []" using handleMessage_Returns [OF s1] assms(4) by simp
  ultimately show ?thesis using s1 by simp
qed

text \<open>The packet of \<open>plainResponse\<close> cut after its seventh character.\<close>

theorem framing_round_trip_witness:
  \<open>parsePlain (stringifyPlain plainResponse) = Some plainResponse \<and>
   isObject plainResponse \<and>
   concat [ascii ''15:{"fr'', ascii ''om":"root"}''] = packet (stringifyPlain plainResponse) \<and>
   buffer connectedClient = [] \<and>
   deliver parsePlain [ascii ''15:{"fr'', ascii ''om":"root"}''] connectedClient =
     Some (handleMessage plainResponse connectedClient)\<close>
proof -
  have a: "parsePlain (stringifyPlain plainResponse) = Some plainResponse"
    by (simp add: parsePlain_def stringifyPlain_def)
  have b: "isObject plainResponse" by (simp add: plainResponse_def)
  have c: \<open>concat [ascii ''15:{"fr'', ascii ''om":"root"}''] =
      packet (stringifyPlain plainResponse)\<close>
    by (simp add: packet_plainText stringifyPlain_def) (simp add: ascii_def)
  have d: "buffer connectedClient = []" by (simp add: connectedClient_def newClient_def)
  show ?thesis
    using framing_round_trip [of parsePlain stringifyPlain plainResponse _ connectedClient,
        OF a b c d] a b c d
    by simp
qed

end
